theory Spec2Isabelle
  imports Main
begin

section \<open>Values, dictionaries and errors\<close>

text \<open>
  The configuration document is a tree of Python values as a TOML reader produces them.
  A dictionary is an association list: iteration order is insertion order and the
  translation pass depends on it. \<open>VObject\<close> is an object with an attribute dictionary
  (the distribution, its metadata), \<open>VMethod\<close> a bound method named by the
  environment.
\<close>

datatype val =
    VNone
  | VBool bool
  | VInt int
  | VStr string
  | VList "val list"
  | VTuple "val list"
  | VDict "(string \<times> val) list"
  | VObject "(string \<times> val) list"
  | VMethod string

type_synonym dict = "(string \<times> val) list"

datatype error =
    ConfigurationError string
  | KeyError string
  | AttributeError string
  | TypeError string
  | OSError string
  | OtherError string

definition andthen :: "error + 'a \<Rightarrow> ('a \<Rightarrow> error + 'b) \<Rightarrow> error + 'b" where
  "andthen m f = (case m of Inl e \<Rightarrow> Inl e | Inr x \<Rightarrow> f x)"

definition dict_has :: "dict \<Rightarrow> string \<Rightarrow> bool" where
  "dict_has d k = (k \<in> fst ` set d)"

definition dict_get :: "dict \<Rightarrow> string \<Rightarrow> val option" where
  "dict_get d k = map_of d k"

text \<open>\<open>d[k] = v\<close>: an existing key keeps its position, a new key goes last.\<close>

fun dict_set :: "dict \<Rightarrow> string \<Rightarrow> val \<Rightarrow> dict" where
  "dict_set [] k v = [(k, v)]"
| "dict_set (p # d) k v = (if fst p = k then (k, v) # d else p # dict_set d k v)"

definition dict_del :: "dict \<Rightarrow> string \<Rightarrow> dict" where
  "dict_del d k = filter (\<lambda>p. fst p \<noteq> k) d"

text \<open>\<open>d.get(k, default)\<close> and \<open>d.pop(k, default)\<close>.\<close>

definition dict_get_default :: "dict \<Rightarrow> string \<Rightarrow> val \<Rightarrow> val" where
  "dict_get_default d k dflt = (case dict_get d k of None \<Rightarrow> dflt | Some v \<Rightarrow> v)"

definition dict_pop :: "dict \<Rightarrow> string \<Rightarrow> val \<Rightarrow> val \<times> dict" where
  "dict_pop d k dflt = (dict_get_default d k dflt, dict_del d k)"

text \<open>Truth value of a Python value, as \<open>if x:\<close> and \<open>x or y\<close> test it.\<close>

fun truthy :: "val \<Rightarrow> bool" where
  "truthy VNone = False"
| "truthy (VBool b) = b"
| "truthy (VInt i) = (i \<noteq> 0)"
| "truthy (VStr s) = (s \<noteq> [])"
| "truthy (VList xs) = (xs \<noteq> [])"
| "truthy (VTuple xs) = (xs \<noteq> [])"
| "truthy (VDict d) = (d \<noteq> [])"
| "truthy (VObject a) = True"
| "truthy (VMethod n) = True"

section \<open>The environment: collaborators outside this module\<close>

text \<open>
  Everything \<open>_apply_pyprojecttoml\<close> calls but does not define is a field of the
  environment: the file-expansion helper, the e-mail address formatter of the standard
  library, the version-specifier parser, the bound methods of the distribution and of
  its metadata object, the command registry, and the process's directory change.
  Strings are byte strings, so \<open>str.lower()\<close> of a string with a character outside
  ASCII, which works on code points, is taken from the environment too.
\<close>

record env =
  lower_unicode :: "string \<Rightarrow> string"
  read_files :: "val \<Rightarrow> string \<Rightarrow> error + string"
  address_str :: "val \<Rightarrow> val \<Rightarrow> error + string"
  specifier_set :: "val \<Rightarrow> error + val"
  call_setter :: "string \<Rightarrow> val \<Rightarrow> dict \<Rightarrow> error + dict"
  hasattr_builtin :: "val \<Rightarrow> string \<Rightarrow> bool"
  format_val :: "val \<Rightarrow> string"
  license_first :: bool
  global_options :: "string list"
  iter_entry_points :: "(string \<times> (error + val)) list"
  user_options :: "val \<Rightarrow> string list"
  call_hook :: "string \<Rightarrow> dict \<Rightarrow> string \<Rightarrow> string \<times> (error + dict)"
  chdir_ok :: "string \<Rightarrow> bool"

section \<open>Key normalisation\<close>

definition lower_char :: "char \<Rightarrow> char" where
  "lower_char c =
     (case map_of (zip ''ABCDEFGHIJKLMNOPQRSTUVWXYZ'' ''abcdefghijklmnopqrstuvwxyz'') c of
        None \<Rightarrow> c
      | Some l \<Rightarrow> l)"

definition is_ascii :: "string \<Rightarrow> bool" where
  "is_ascii s = list_all (\<lambda>c. \<not> digit7 c) s"

text \<open>
  \<open>s.lower()\<close>: on an ASCII string the letters A to Z are replaced and nothing else;
  on any other string the result is the standard library's.
\<close>

definition lower :: "env \<Rightarrow> string \<Rightarrow> string" where
  "lower env s = (if is_ascii s then map lower_char s else lower_unicode env s)"

definition replace_char :: "char \<Rightarrow> char \<Rightarrow> string \<Rightarrow> string" where
  "replace_char a b s = map (\<lambda>c. if c = a then b else c) s"

text \<open>\<open>key.lower().replace("-", "_")\<close>\<close>

definition json_compatible_key :: "env \<Rightarrow> string \<Rightarrow> string" where
  "json_compatible_key env key = replace_char (CHR ''-'') (CHR ''_'') (lower env key)"

section \<open>Assignment into the distribution\<close>

definition SETUPTOOLS_PATCHES :: "string set" where
  "SETUPTOOLS_PATCHES = {''long_description_content_type'', ''project_urls'',
     ''provides_extras'', ''license_file'', ''license_files''}"

text \<open>
  The distribution is an object: its attribute dictionary holds \<open>metadata\<close> (an object
  again), \<open>command_options\<close> and whatever \<open>setattr\<close> adds. \<open>setter(value)\<close> calls
  a bound method of the metadata object, which may change that object or raise.
\<close>

fun call_value :: "env \<Rightarrow> val \<Rightarrow> val \<Rightarrow> dict \<Rightarrow> error + dict" where
  "call_value env (VMethod n) value md = call_setter env n value md"
| "call_value env _ value md = Inl (TypeError ''object is not callable'')"

definition set_config :: "env \<Rightarrow> dict \<Rightarrow> string \<Rightarrow> val \<Rightarrow> error + dict" where
  "set_config env dist field value =
     (case dict_get dist ''metadata'' of
        None \<Rightarrow> Inl (AttributeError ''metadata'')
      | Some (VObject md) \<Rightarrow>
          (let setter = dict_get_default md (''set_'' @ field) VNone in
           if truthy setter then
             andthen (call_value env setter value md)
               (\<lambda>md'. Inr (dict_set dist ''metadata'' (VObject md')))
           else if dict_has md field \<or> field \<in> SETUPTOOLS_PATCHES then
             Inr (dict_set dist ''metadata'' (VObject (dict_set md field value)))
           else Inr (dict_set dist field value))
      | Some m \<Rightarrow>
          (if hasattr_builtin env m field \<or> field \<in> SETUPTOOLS_PATCHES
           then Inl (AttributeError field)
           else Inr (dict_set dist field value)))"

section \<open>Field translators\<close>

text \<open>
  \<open>_long_description\<close>: a string is handed to \<open>expand.read_files\<close>; a table gives
  \<open>text\<close>, or else the files named by \<open>file\<close>, and must have \<open>content-type\<close>.
\<close>

definition long_description :: "env \<Rightarrow> dict \<Rightarrow> val \<Rightarrow> string \<Rightarrow> error + dict" where
  "long_description env dist v root_dir =
     andthen
       (case v of
          VStr s \<Rightarrow>
            andthen (read_files env v root_dir) (\<lambda>text. Inr (VStr text, VStr ''text/x-rst''))
        | VDict d \<Rightarrow>
            andthen
              (if truthy (dict_get_default d ''text'' VNone)
               then Inr (dict_get_default d ''text'' VNone)
               else andthen (read_files env (dict_get_default d ''file'' (VList [])) root_dir)
                      (\<lambda>text. Inr (VStr text)))
              (\<lambda>text. case dict_get d ''content-type'' of
                         None \<Rightarrow> Inl (KeyError ''content-type'')
                       | Some ctype \<Rightarrow> Inr (text, ctype))
        | _ \<Rightarrow> Inl (AttributeError ''get''))
       (\<lambda>(text, ctype).
          andthen (set_config env dist ''long_description'' text)
            (\<lambda>dist'. set_config env dist' ''long_description_content_type'' ctype))"

text \<open>
  \<open>_license\<close>: a string is the license text; a table with \<open>file\<close> names the one
  license file; otherwise the table must have \<open>text\<close>. A value that is neither a
  string nor a table fails on \<open>"file" in val\<close> or on the subscript that follows.
\<close>

definition license :: "env \<Rightarrow> dict \<Rightarrow> val \<Rightarrow> string \<Rightarrow> error + dict" where
  "license env dist v root_dir =
     (case v of
        VStr s \<Rightarrow> set_config env dist ''license'' v
      | VDict d \<Rightarrow>
          (if dict_has d ''file''
           then set_config env dist ''license_files'' (VList [dict_get_default d ''file'' VNone])
           else (case dict_get d ''text'' of
                   None \<Rightarrow> Inl (KeyError ''text'')
                 | Some t \<Rightarrow> set_config env dist ''license'' t))
      | _ \<Rightarrow> Inl (TypeError ''license''))"

text \<open>\<open>for x in v\<close>: what iterating a value yields, or \<open>TypeError\<close>.\<close>

fun py_iter :: "val \<Rightarrow> error + val list" where
  "py_iter (VList xs) = Inr xs"
| "py_iter (VTuple xs) = Inr xs"
| "py_iter (VDict d) = Inr (map (\<lambda>p. VStr (fst p)) d)"
| "py_iter (VStr s) = Inr (map (\<lambda>c. VStr [c]) s)"
| "py_iter _ = Inl (TypeError ''object is not iterable'')"

text \<open>\<open>sep.join(xs)\<close>: every item must be a string.\<close>

fun join :: "string \<Rightarrow> string list \<Rightarrow> string" where
  "join sep [] = []"
| "join sep [x] = x"
| "join sep (x # y # ys) = x @ sep @ join sep (y # ys)"

fun as_strs :: "val list \<Rightarrow> error + string list" where
  "as_strs [] = Inr []"
| "as_strs (VStr s # xs) = andthen (as_strs xs) (\<lambda>ss. Inr (s # ss))"
| "as_strs (_ # xs) = Inl (TypeError ''sequence item: expected str instance'')"

definition str_join :: "string \<Rightarrow> val list \<Rightarrow> error + string" where
  "str_join sep xs = andthen (as_strs xs) (\<lambda>ss. Inr (join sep ss))"

text \<open>
  \<open>_people\<close>: the loop over the persons fills the two lists \<open>field\<close> and
  \<open>email_field\<close>; each list is assigned only if it is not empty.
\<close>

fun people_loop :: "env \<Rightarrow> val list \<Rightarrow> val list \<times> val list \<Rightarrow> error + (val list \<times> val list)" where
  "people_loop env [] acc = Inr acc"
| "people_loop env (person # rest) (field, email_field) =
     (case person of
        VDict p \<Rightarrow>
          (if \<not> dict_has p ''name'' then
             (case dict_get p ''email'' of
                None \<Rightarrow> Inl (KeyError ''email'')
              | Some e \<Rightarrow> people_loop env rest (field, email_field @ [e]))
           else if \<not> dict_has p ''email'' then
             people_loop env rest (field @ [dict_get_default p ''name'' VNone], email_field)
           else
             andthen
               (address_str env (dict_get_default p ''name'' VNone)
                  (dict_get_default p ''email'' VNone))
               (\<lambda>addr. people_loop env rest (field, email_field @ [VStr addr])))
      | _ \<Rightarrow> Inl (TypeError ''person''))"

definition people :: "env \<Rightarrow> dict \<Rightarrow> val \<Rightarrow> string \<Rightarrow> string \<Rightarrow> error + dict" where
  "people env dist v root_dir kind =
     andthen (py_iter v) (\<lambda>persons.
     andthen (people_loop env persons ([], [])) (\<lambda>(field, email_field).
     andthen
       (if field \<noteq> []
        then andthen (str_join '', '' field) (\<lambda>s. set_config env dist kind (VStr s))
        else Inr dist)
       (\<lambda>dist1.
          if email_field \<noteq> []
          then andthen (str_join '', '' email_field)
                 (\<lambda>s. set_config env dist1 (kind @ ''_email'') (VStr s))
          else Inr dist1)))"

text \<open>\<open>_project_urls\<close>: every label is assigned, the two aliases under their field.\<close>

definition special :: "string \<Rightarrow> string option" where
  "special = map_of [(''downloadurl'', ''download_url''), (''homepage'', ''url'')]"

definition url_key :: "env \<Rightarrow> string \<Rightarrow> string" where
  "url_key env key =
     (case special (filter (\<lambda>c. c \<noteq> CHR ''_'') (json_compatible_key env key)) of
        None \<Rightarrow> key
      | Some field \<Rightarrow> field)"

fun project_urls_loop :: "env \<Rightarrow> dict \<Rightarrow> dict \<Rightarrow> error + dict" where
  "project_urls_loop env dist [] = Inr dist"
| "project_urls_loop env dist ((key, url) # rest) =
     andthen (set_config env dist (url_key env key) url)
       (\<lambda>dist'. project_urls_loop env dist' rest)"

definition project_urls :: "env \<Rightarrow> dict \<Rightarrow> val \<Rightarrow> string \<Rightarrow> error + dict" where
  "project_urls env dist v root_dir =
     (case v of
        VDict d \<Rightarrow>
          andthen (project_urls_loop env dist d)
            (\<lambda>dist'. set_config env dist' ''project_urls'' (VDict d))
      | _ \<Rightarrow> Inl (AttributeError ''items''))"

definition python_requires :: "env \<Rightarrow> dict \<Rightarrow> val \<Rightarrow> string \<Rightarrow> error + dict" where
  "python_requires env dist v root_dir =
     andthen (specifier_set env v) (\<lambda>spec. set_config env dist ''python_requires'' spec)"

section \<open>Preprocessing of the project table\<close>

definition DEFAULT_LICENSE_FILES :: val where
  "DEFAULT_LICENSE_FILES =
     VTuple [VStr ''LICEN[CS]E*'', VStr ''COPYING*'', VStr ''NOTICE*'', VStr ''AUTHORS*'']"

fun norm_keys :: "env \<Rightarrow> val list \<Rightarrow> error + string list" where
  "norm_keys env [] = Inr []"
| "norm_keys env (VStr k # ks) = andthen (norm_keys env ks) (\<lambda>ns. Inr (json_compatible_key env k # ns))"
| "norm_keys env (_ # ks) = Inl (AttributeError ''lower'')"

definition dict_setdefault :: "dict \<Rightarrow> string \<Rightarrow> val \<Rightarrow> dict" where
  "dict_setdefault d k v = (if dict_has d k then d else d @ [(k, v)])"

text \<open>
  \<open>_dynamic_license\<close>. \<open>dynamic_cfg\<close> is the very table stored in the tool table under
  \<open>dynamic\<close> when there is one, so \<open>setdefault\<close> changes the tool table of the
  caller's document: the function returns the tool table as it is afterwards, next to the
  project table. \<open>keys\<close> is a Python set; the order in which a set of two strings is
  iterated is fixed for the process and given by the environment.
\<close>

definition dynamic_license :: "env \<Rightarrow> dict \<Rightarrow> val \<Rightarrow> error + (dict \<times> dict)" where
  "dynamic_license env project_table tool_table =
     andthen (py_iter (dict_get_default project_table ''dynamic'' (VList []))) (\<lambda>ks.
     andthen (norm_keys env ks) (\<lambda>dynamic.
       (case tool_table of
          VDict tt \<Rightarrow>
            (case dict_get_default tt ''dynamic'' (VDict []) of
               VDict dc \<Rightarrow>
                 (let dynamic_cfg = dict_setdefault dc ''license_files'' DEFAULT_LICENSE_FILES;
                      tool_table' =
                        (if dict_has tt ''dynamic''
                         then dict_set tt ''dynamic'' (VDict dynamic_cfg) else tt);
                      keys =
                        (if ''license'' \<in> set dynamic
                         then filter (dict_has dynamic_cfg)
                                (if license_first env then [''license'', ''license_files'']
                                 else [''license_files'', ''license''])
                         else [])
                  in Inr (fold (\<lambda>key pt. dict_set pt (json_compatible_key env key)
                                  (dict_get_default dynamic_cfg key VNone)) keys project_table,
                          tool_table'))
             | _ \<Rightarrow> Inl (AttributeError ''setdefault''))
        | _ \<Rightarrow> Inl (AttributeError ''get''))))"

text \<open>
  \<open>_unify_entry_points\<close>. \<open>project\<close> is a shallow copy, so \<open>entry_points\<close> is the very
  table of the caller's document when the project table has one; the function returns,
  next to its result, the key and the new contents of that table when it was changed
  in place.
\<close>

definition renaming :: "string \<Rightarrow> string option" where
  "renaming = map_of [(''scripts'', ''console_scripts''), (''gui_scripts'', ''gui_scripts'')]"

fun unify_loop :: "env \<Rightarrow> dict \<Rightarrow> dict \<times> val \<Rightarrow> error + (dict \<times> val)" where
  "unify_loop env [] st = Inr st"
| "unify_loop env ((key, value) # rest) (project, entry_points) =
     (case renaming (json_compatible_key env key) of
        None \<Rightarrow> unify_loop env rest (project, entry_points)
      | Some name \<Rightarrow>
          (if truthy value then
             (case dict_get project key of
                None \<Rightarrow> Inl (KeyError key)
              | Some popped \<Rightarrow>
                  (case entry_points of
                     VDict ep \<Rightarrow>
                       unify_loop env rest (dict_del project key, VDict (dict_set ep name popped))
                   | _ \<Rightarrow> Inl (TypeError ''object does not support item assignment'')))
           else unify_loop env rest (project, entry_points)))"

definition format_entry :: "env \<Rightarrow> string \<times> val \<Rightarrow> val" where
  "format_entry env kv =
     VStr (fst kv @ '' = '' @ (case snd kv of VStr s \<Rightarrow> s | v \<Rightarrow> format_val env v))"

fun format_groups :: "env \<Rightarrow> dict \<Rightarrow> error + dict" where
  "format_groups env [] = Inr []"
| "format_groups env ((name, grp) # rest) =
     (case grp of
        VDict g \<Rightarrow>
          andthen (format_groups env rest)
            (\<lambda>r. Inr ((name, VList (map (format_entry env) g)) # r))
      | _ \<Rightarrow> Inl (AttributeError ''items''))"

definition unify_entry_points :: "env \<Rightarrow> dict \<Rightarrow> (string \<times> val) option \<times> (error + dict)" where
  "unify_entry_points env project_table =
     (let (inner, p1) = dict_pop project_table ''entry_points'' (VDict []);
          (entry_points, p2) = dict_pop p1 ''entry-points'' inner;
          origin =
            (if dict_has project_table ''entry-points'' then Some ''entry-points''
             else if dict_has project_table ''entry_points'' then Some ''entry_points''
             else None)
      in case unify_loop env p2 (p2, entry_points) of
           Inl e \<Rightarrow> (None, Inl e)
         | Inr (p3, ep) \<Rightarrow>
             (map_option (\<lambda>k. (k, ep)) origin,
              if truthy ep then
                (case ep of
                   VDict groups \<Rightarrow>
                     andthen (format_groups env groups)
                       (\<lambda>fmt. Inr (dict_set p3 ''entry-points'' (VDict fmt)))
                 | _ \<Rightarrow> Inl (AttributeError ''items''))
              else Inr p3))"

section \<open>The two passes over the tables\<close>

datatype corresp =
    Attr string
  | Translator "env \<Rightarrow> dict \<Rightarrow> val \<Rightarrow> string \<Rightarrow> error + dict"

definition PYPROJECT_CORRESPONDENCE :: "(string \<times> corresp) list" where
  "PYPROJECT_CORRESPONDENCE =
     [(''readme'', Translator long_description),
      (''license'', Translator license),
      (''authors'', Translator (\<lambda>env dist v root_dir. people env dist v root_dir ''author'')),
      (''maintainers'',
         Translator (\<lambda>env dist v root_dir. people env dist v root_dir ''maintainer'')),
      (''urls'', Translator project_urls),
      (''dependencies'', Attr ''install_requires''),
      (''optional_dependencies'', Attr ''extras_require''),
      (''requires_python'', Translator python_requires)]"

definition TOOL_TABLE_RENAMES :: "(string \<times> string) list" where
  "TOOL_TABLE_RENAMES = [(''script_files'', ''scripts'')]"

text \<open>The body of the loop over the project table (lines 36 to 41 of \<open>apply\<close>).\<close>

definition dispatch :: "env \<Rightarrow> dict \<Rightarrow> string \<Rightarrow> val \<Rightarrow> string \<Rightarrow> error + dict" where
  "dispatch env dist field value root_dir =
     (let norm_key = json_compatible_key env field in
      case map_of PYPROJECT_CORRESPONDENCE norm_key of
        None \<Rightarrow> set_config env dist norm_key value
      | Some (Attr a) \<Rightarrow> set_config env dist a value
      | Some (Translator f) \<Rightarrow> f env dist value root_dir)"

fun project_fields :: "env \<Rightarrow> dict \<Rightarrow> dict \<Rightarrow> string \<Rightarrow> error + dict" where
  "project_fields env dist [] root_dir = Inr dist"
| "project_fields env dist ((field, value) # rest) root_dir =
     andthen (dispatch env dist field value root_dir)
       (\<lambda>dist'. project_fields env dist' rest root_dir)"

fun tool_fields :: "env \<Rightarrow> dict \<Rightarrow> dict \<Rightarrow> error + dict" where
  "tool_fields env dist [] = Inr dist"
| "tool_fields env dist ((field, value) # rest) =
     (let norm_key = json_compatible_key env field;
          norm_key' = (case map_of TOOL_TABLE_RENAMES norm_key of None \<Rightarrow> norm_key | Some r \<Rightarrow> r)
      in andthen (set_config env dist norm_key' value) (\<lambda>dist'. tool_fields env dist' rest))"

section \<open>Command options\<close>

text \<open>\<open>name.strip("_=")\<close> after the key normalisation.\<close>

definition strip_chars :: "string \<Rightarrow> string \<Rightarrow> string" where
  "strip_chars cs s =
     rev (dropWhile (\<lambda>c. c \<in> set cs) (rev (dropWhile (\<lambda>c. c \<in> set cs) s)))"

definition normalise_cmd_option_key :: "env \<Rightarrow> string \<Rightarrow> string" where
  "normalise_cmd_option_key env name = strip_chars ''_='' (json_compatible_key env name)"

text \<open>The descriptors are given by their first element, the option's name.\<close>

definition normalise_cmd_options :: "env \<Rightarrow> string list \<Rightarrow> string set" where
  "normalise_cmd_options env desc = normalise_cmd_option_key env ` set desc"

definition error_class :: "error \<Rightarrow> string" where
  "error_class ex =
     (case ex of
        ConfigurationError m \<Rightarrow> ''ConfigurationError''
      | KeyError m \<Rightarrow> ''KeyError''
      | AttributeError m \<Rightarrow> ''AttributeError''
      | TypeError m \<Rightarrow> ''TypeError''
      | OSError m \<Rightarrow> ''OSError''
      | OtherError m \<Rightarrow> ''Exception'')"

definition error_text :: "error \<Rightarrow> string" where
  "error_text ex =
     (case ex of
        ConfigurationError m \<Rightarrow> m
      | KeyError m \<Rightarrow> m
      | AttributeError m \<Rightarrow> m
      | TypeError m \<Rightarrow> m
      | OSError m \<Rightarrow> m
      | OtherError m \<Rightarrow> m)"

text \<open>
  \<open>_load_ep\<close>: an entry point is its name and what loading it gives; a failure to load
  is logged and the entry point skipped. The log is the list of warnings, oldest first.
\<close>

definition load_ep :: "string \<times> (error + val) \<Rightarrow> string list \<times> (string \<times> val) option" where
  "load_ep ep =
     (case snd ep of
        Inr cls \<Rightarrow> ([], Some (fst ep, cls))
      | Inl ex \<Rightarrow>
          ([error_class ex @ '' while trying to load entry-point '' @ fst ep @ '': ''
              @ error_text ex], None))"

fun load_eps :: "(string \<times> (error + val)) list \<Rightarrow> string list \<times> (string \<times> val) list" where
  "load_eps [] = ([], [])"
| "load_eps (ep # eps) =
     (case load_ep ep of
        (w, r) \<Rightarrow>
          (case load_eps eps of
             (ws, rs) \<Rightarrow> (w @ ws, (case r of None \<Rightarrow> rs | Some c \<Rightarrow> c # rs))))"

text \<open>\<open>valid_options.get(cmd, set())\<close>\<close>

definition known_options :: "(string \<Rightarrow> string set option) \<Rightarrow> string \<Rightarrow> string set" where
  "known_options valid_options cmd =
     (case valid_options cmd of None \<Rightarrow> {} | Some opts \<Rightarrow> opts)"

definition add_command :: "env \<Rightarrow> string \<times> val \<Rightarrow> (string \<Rightarrow> string set option)
    \<Rightarrow> (string \<Rightarrow> string set option)" where
  "add_command env c valid_options =
     valid_options(fst c \<mapsto>
       known_options valid_options (fst c)
         \<union> normalise_cmd_options env (user_options env (snd c)))"

definition valid_command_options :: "env \<Rightarrow> val
    \<Rightarrow> string list \<times> (error + (string \<Rightarrow> string set option))" where
  "valid_command_options env cmdclass =
     (case cmdclass of
        VDict cc \<Rightarrow>
          (case load_eps (iter_entry_points env) of
             (warnings, entry_points) \<Rightarrow>
               (warnings,
                Inr (fold (add_command env) (entry_points @ cc)
                       [''global'' \<mapsto> normalise_cmd_options env (global_options env)])))
      | _ \<Rightarrow> ([], Inl (AttributeError ''items'')))"

definition option_warning :: "string \<Rightarrow> string \<Rightarrow> string" where
  "option_warning cmd key = ''Command option '' @ cmd @ ''.'' @ key @ '' is not defined''"

text \<open>
  The inner loop of \<open>_copy_command_options\<close>: \<open>cmd_opts[cmd][key] = value\<close>, then the
  warning when the key is not a valid option of the command.
\<close>

fun record_options :: "env \<Rightarrow> string set \<Rightarrow> string \<Rightarrow> dict \<Rightarrow> dict \<Rightarrow> string list
    \<Rightarrow> string list \<times> (error + dict)" where
  "record_options env valid cmd [] cmd_opts log = (log, Inr cmd_opts)"
| "record_options env valid cmd ((key, value) # rest) cmd_opts log =
     (let key' = json_compatible_key env key in
      case dict_get cmd_opts cmd of
        None \<Rightarrow> (log, Inl (KeyError cmd))
      | Some (VDict opts) \<Rightarrow>
          record_options env valid cmd rest
            (dict_set cmd_opts cmd (VDict (dict_set opts key' value)))
            (if key' \<in> valid then log else log @ [option_warning cmd key'])
      | Some _ \<Rightarrow> (log, Inl (TypeError ''object does not support item assignment'')))"

fun copy_commands :: "env \<Rightarrow> (string \<Rightarrow> string set option) \<Rightarrow> dict \<Rightarrow> val \<Rightarrow> string list
    \<Rightarrow> string list \<times> (error + val)" where
  "copy_commands env valid_options [] cmd_opts log = (log, Inr cmd_opts)"
| "copy_commands env valid_options ((cmd, config) # rest) cmd_opts log =
     (let cmd' = json_compatible_key env cmd;
          valid = known_options valid_options cmd'
      in case cmd_opts of
           VDict co \<Rightarrow>
             (case config of
                VDict items \<Rightarrow>
                  (case record_options env valid cmd' items (dict_setdefault co cmd' (VDict [])) log of
                     (log', Inl e) \<Rightarrow> (log', Inl e)
                   | (log', Inr co') \<Rightarrow> copy_commands env valid_options rest (VDict co') log')
              | _ \<Rightarrow> (log, Inl (AttributeError ''items'')))
         | _ \<Rightarrow> (log, Inl (AttributeError ''setdefault'')))"

definition copy_command_options :: "env \<Rightarrow> dict \<Rightarrow> dict \<Rightarrow> string list \<times> (error + dict)" where
  "copy_command_options env pyproject dist =
     (case dict_get_default pyproject ''tool'' (VDict []) of
        VDict tool_table \<Rightarrow>
          (case dict_get_default tool_table ''setuptools'' (VDict []) of
             VDict st \<Rightarrow>
               (case valid_command_options env (dict_get_default st ''cmdclass'' (VDict [])) of
                  (log, Inl e) \<Rightarrow> (log, Inl e)
                | (log, Inr valid_options) \<Rightarrow>
                    (case dict_get dist ''command_options'' of
                       None \<Rightarrow> (log, Inl (AttributeError ''command_options''))
                     | Some cmd_opts \<Rightarrow>
                         (case dict_get_default tool_table ''distutils'' (VDict []) of
                            VDict du \<Rightarrow>
                              (case copy_commands env valid_options du cmd_opts log of
                                 (log', Inl e) \<Rightarrow> (log', Inl e)
                               | (log', Inr cmd_opts') \<Rightarrow>
                                   (log', Inr (dict_set dist ''command_options'' cmd_opts')))
                          | _ \<Rightarrow> (log, Inl (AttributeError ''items'')))))
           | _ \<Rightarrow> ([], Inl (AttributeError ''get'')))
      | _ \<Rightarrow> ([], Inl (AttributeError ''get'')))"

section \<open>Finalisation and the whole pass\<close>

text \<open>
  \<open>dist.name()\<close>: the attribute must be there and be a method. A hook sees the working
  directory, may change it, and returns the distribution as it left it, or raises.
\<close>

definition call_method :: "env \<Rightarrow> dict \<Rightarrow> string \<Rightarrow> string \<Rightarrow> string \<times> (error + dict)" where
  "call_method env dist name cwd =
     (case dict_get dist name of
        None \<Rightarrow> (cwd, Inl (AttributeError name))
      | Some (VMethod n) \<Rightarrow> call_hook env n dist cwd
      | Some _ \<Rightarrow> (cwd, Inl (TypeError ''object is not callable'')))"

text \<open>
  Lines 50 to 56 of \<open>apply\<close>. \<open>os.chdir(p)\<close> makes \<open>p\<close> the working directory when it
  can be entered and raises otherwise; the one in \<open>finally\<close> runs whatever the hooks
  did, and its own failure replaces their result.
\<close>

definition finalize :: "env \<Rightarrow> dict \<Rightarrow> string \<Rightarrow> string \<Rightarrow> string \<times> (error + dict)" where
  "finalize env dist root_dir cwd =
     (let current_directory = cwd in
      if \<not> chdir_ok env root_dir then (cwd, Inl (OSError root_dir))
      else
        (case (case call_method env dist ''_finalize_requires'' root_dir of
                 (cwd1, Inl e) \<Rightarrow> (cwd1, Inl e)
               | (cwd1, Inr dist1) \<Rightarrow> call_method env dist1 ''_finalize_license_files'' cwd1) of
           (cwd2, r) \<Rightarrow>
             if chdir_ok env current_directory then (current_directory, r)
             else (cwd2, Inl (OSError current_directory))))"

text \<open>
  Lines 31 to 34 of \<open>apply\<close>: the two tables are taken from the document and
  preprocessed. The result carries the document as the caller finds it afterwards.
\<close>

definition preprocess :: "env \<Rightarrow> dict \<Rightarrow> dict \<times> (error + (dict \<times> dict))" where
  "preprocess env config =
     (case dict_get_default config ''tool'' (VDict []) of
        VDict tool \<Rightarrow>
          (let tool_table = dict_get_default tool ''setuptools'' VNone in
           case dict_get_default config ''project'' VNone of
             VDict project \<Rightarrow>
               (case unify_entry_points env project of
                  (changed, r) \<Rightarrow>
                    (let config1 =
                       (case changed of
                          None \<Rightarrow> config
                        | Some (k, ep) \<Rightarrow> dict_set config ''project'' (VDict (dict_set project k ep)))
                     in case r of
                          Inl e \<Rightarrow> (config1, Inl e)
                        | Inr project_table \<Rightarrow>
                            (case dynamic_license env project_table tool_table of
                               Inl e \<Rightarrow> (config1, Inl e)
                             | Inr (project_table', tool_table') \<Rightarrow>
                                 (dict_set config1 ''tool''
                                    (VDict (dict_set tool ''setuptools'' (VDict tool_table'))),
                                  Inr (project_table', tool_table')))))
           | VList xs \<Rightarrow> (config, Inl (TypeError ''pop expected at most 1 argument, got 2''))
           | _ \<Rightarrow> (config, Inl (AttributeError ''copy'')))
      | _ \<Rightarrow> (config, Inl (AttributeError ''get'')))"

text \<open>
  Lines 31 to 48 of \<open>apply\<close>: preprocessing, the pass over the project table, the
  pass over the tool table as \<open>_dynamic_license\<close> left it, and the command options.
  The result is the document afterwards, the log, and the distribution or the error.
  The document is changed in the two places named above only: a value the distribution
  keeps is not changed again by this module, so values are copied freely here.
\<close>

definition translate :: "env \<Rightarrow> dict \<Rightarrow> dict \<Rightarrow> string
    \<Rightarrow> dict \<times> string list \<times> (error + dict)" where
  "translate env dist config root_dir =
     (case preprocess env config of
        (config', Inl e) \<Rightarrow> (config', [], Inl e)
      | (config', Inr (project_table, tool_table)) \<Rightarrow>
          (case andthen (project_fields env dist project_table root_dir)
                  (\<lambda>dist'. tool_fields env dist' tool_table) of
             Inl e \<Rightarrow> (config', [], Inl e)
           | Inr dist1 \<Rightarrow>
               (case copy_command_options env config' dist1 of
                  (log, r) \<Rightarrow> (config', log, r))))"

record outcome =
  out_config :: dict
  out_cwd :: string
  out_log :: "string list"
  out_result :: "error + dict"

text \<open>
  \<open>apply(dist, config, root_dir)\<close>, started in the working directory \<open>cwd\<close>: what the
  caller finds afterwards is the document, the working directory, the log, and either
  the distribution returned or the exception raised.
\<close>

definition apply_config :: "env \<Rightarrow> dict \<Rightarrow> dict \<Rightarrow> string \<Rightarrow> string \<Rightarrow> outcome" where
  "apply_config env dist config root_dir cwd =
     (case translate env dist config root_dir of
        (config', log, Inl e) \<Rightarrow>
          \<lparr>out_config = config', out_cwd = cwd, out_log = log, out_result = Inl e\<rparr>
      | (config', log, Inr dist') \<Rightarrow>
          (case finalize env dist' root_dir cwd of
             (cwd', r) \<Rightarrow>
               \<lparr>out_config = config', out_cwd = cwd', out_log = log, out_result = r\<rparr>))"

section \<open>Reading the model, and a concrete environment\<close>

text \<open>\<open>dist.metadata.name\<close>, when the metadata is an object with that attribute.\<close>

definition metadata_attr :: "dict \<Rightarrow> string \<Rightarrow> val option" where
  "metadata_attr dist name =
     (case dict_get dist ''metadata'' of
        Some (VObject md) \<Rightarrow> dict_get md name
      | _ \<Rightarrow> None)"

text \<open>The metadata object has no usable method \<open>set_<field>\<close>.\<close>

definition no_setter :: "dict \<Rightarrow> string \<Rightarrow> bool" where
  "no_setter md field = (\<not> truthy (dict_get_default md (''set_'' @ field) VNone))"

text \<open>\<open>dist.command_options[cmd][key]\<close>\<close>

definition command_option :: "val \<Rightarrow> string \<Rightarrow> string \<Rightarrow> val option" where
  "command_option cmd_opts cmd key =
     (case cmd_opts of
        VDict co \<Rightarrow>
          (case dict_get co cmd of
             Some (VDict opts) \<Rightarrow> dict_get opts key
           | _ \<Rightarrow> None)
      | _ \<Rightarrow> None)"

text \<open>
  A distribution as its constructor leaves it, cut down to the attributes used below:
  every metadata field is there and is \<open>None\<close>, no option is recorded, and the two
  finalize hooks are methods of the object.
\<close>

definition fresh_metadata :: dict where
  "fresh_metadata =
     [(''name'', VNone), (''version'', VNone), (''author'', VNone), (''author_email'', VNone),
      (''maintainer'', VNone), (''maintainer_email'', VNone), (''url'', VNone),
      (''download_url'', VNone), (''license'', VNone), (''long_description'', VNone)]"

definition fresh_dist :: dict where
  "fresh_dist =
     [(''metadata'', VObject fresh_metadata),
      (''command_options'', VDict []),
      (''_finalize_requires'', VMethod ''_finalize_requires''),
      (''_finalize_license_files'', VMethod ''_finalize_license_files'')]"

text \<open>
  An environment to run the model in: one file \<open>README.rst\<close>, the address format of
  the standard library for a display name without special characters, hooks that
  change nothing, every directory enterable, and one registered command \<open>build\<close>.
\<close>

definition example_env :: env where
  "example_env =
     \<lparr>lower_unicode = (\<lambda>s. s),
      read_files = (\<lambda>v root_dir.
        if v = VStr ''README.rst'' then Inr ''Project documentation''
        else if v = VList [] then Inr []
        else Inl (OtherError ''file not found'')),
      address_str = (\<lambda>n e.
        case (n, e) of
          (VStr display_name, VStr addr_spec) \<Rightarrow>
            Inr (if display_name = [] then addr_spec
                 else display_name @ '' <'' @ addr_spec @ ''>'')
        | _ \<Rightarrow> Inl (TypeError ''address'')),
      specifier_set = (\<lambda>v. Inr v),
      call_setter = (\<lambda>n value md. Inl (AttributeError n)),
      hasattr_builtin = (\<lambda>v name. False),
      format_val = (\<lambda>v. []),
      license_first = True,
      global_options = [''verbose'', ''quiet'', ''dry-run'', ''help'', ''no-user-cfg''],
      iter_entry_points = [(''build'', Inr (VStr ''build''))],
      user_options = (\<lambda>cls. if cls = VStr ''build'' then [''build-base='', ''debug''] else []),
      call_hook = (\<lambda>n dist cwd. (cwd, Inr dist)),
      chdir_ok = (\<lambda>p. True)\<rparr>"

text \<open>The same environment with finalize hooks that move elsewhere and then raise.\<close>

definition failing_env :: env where
  "failing_env =
     example_env\<lparr>call_hook := (\<lambda>n dist cwd. (''/elsewhere'', Inl (OtherError ''hook failed'')))\<rparr>"

text \<open>What a translator's result says about a metadata attribute; \<open>None\<close> after a failure.\<close>

definition result_attr :: "error + dict \<Rightarrow> string \<Rightarrow> val option" where
  "result_attr r name = (case r of Inl e \<Rightarrow> None | Inr dist \<Rightarrow> metadata_attr dist name)"

definition is_configuration_error :: "error \<Rightarrow> bool" where
  "is_configuration_error ex = (case ex of ConfigurationError m \<Rightarrow> True | _ \<Rightarrow> False)"

section \<open>What the specification says of a person record\<close>

text \<open>
  These three follow the specification's words, to be compared with \<open>people\<close>: a person
  with a name and no e-mail gives its name to the plain-name field; a person with an
  e-mail and no name gives the bare e-mail to the e-mail field; a person with both gives
  one formatted token to the e-mail field and nothing to the plain-name field.
  \<open>person_ok\<close> holds of a record that has a name or an e-mail, as strings, and with
  both, of one whose address the formatter accepts.
\<close>

definition spec_name_tokens :: "dict \<Rightarrow> string list" where
  "spec_name_tokens p =
     (case (dict_get p ''name'', dict_get p ''email'') of
        (Some (VStr n), None) \<Rightarrow> [n]
      | _ \<Rightarrow> [])"

definition spec_email_tokens :: "env \<Rightarrow> dict \<Rightarrow> string list" where
  "spec_email_tokens env p =
     (case (dict_get p ''name'', dict_get p ''email'') of
        (None, Some (VStr e)) \<Rightarrow> [e]
      | (Some n, Some e) \<Rightarrow> (case address_str env n e of Inr a \<Rightarrow> [a] | Inl x \<Rightarrow> [])
      | _ \<Rightarrow> [])"

definition person_ok :: "env \<Rightarrow> dict \<Rightarrow> bool" where
  "person_ok env p =
     (case (dict_get p ''name'', dict_get p ''email'') of
        (None, None) \<Rightarrow> False
      | (Some n, None) \<Rightarrow> (case n of VStr s \<Rightarrow> True | _ \<Rightarrow> False)
      | (None, Some e) \<Rightarrow> (case e of VStr s \<Rightarrow> True | _ \<Rightarrow> False)
      | (Some n, Some e) \<Rightarrow> (case address_str env n e of Inr a \<Rightarrow> True | Inl x \<Rightarrow> False))"

text \<open>The document of the specification's end-to-end example.\<close>

definition e2e_document :: dict where
  "e2e_document =
     [(''project'', VDict [(''name'', VStr ''pkg''), (''version'', VStr ''1.0''),
        (''authors'', VList [VDict [(''name'', VStr ''A''), (''email'', VStr ''a@x.com'')]])]),
      (''tool'', VDict [(''setuptools'', VDict [])])]"

section \<open>What the specification says of the command options\<close>

fun is_table :: "val \<Rightarrow> bool" where
  "is_table (VDict d) = True"
| "is_table _ = False"

text \<open>
  The (command, option, value) triples of the per-command overrides table, in the order
  of the table, with the command and option names normalised.
\<close>

definition option_triples :: "env \<Rightarrow> dict \<Rightarrow> (string \<times> string \<times> val) list" where
  "option_triples env du =
     concat (map (\<lambda>(cmd, config).
        case config of
          VDict items \<Rightarrow>
            map (\<lambda>(key, value). (json_compatible_key env cmd, json_compatible_key env key, value)) items
        | _ \<Rightarrow> []) du)"

text \<open>The document of the specification's example of an unknown command option.\<close>

definition bogus_flag_document :: dict where
  "bogus_flag_document =
     [(''project'', VDict [(''name'', VStr ''pkg''), (''version'', VStr ''1.0'')]),
      (''tool'', VDict [(''setuptools'', VDict []),
         (''distutils'', VDict [(''build'',
            VDict [(''bogus_flag'', VInt 1), (''build-base'', VStr ''out'')])])])]"

text \<open>A document whose project table declares its license dynamic.\<close>

definition dynamic_license_document :: dict where
  "dynamic_license_document =
     [(''project'', VDict [(''name'', VStr ''pkg''), (''dynamic'', VList [VStr ''license''])]),
      (''tool'', VDict [(''setuptools'', VDict [])])]"

text \<open>
  Two documents as they are commonly written: a version declared dynamic with its
  source in \<open>tool.setuptools.dynamic\<close>, and an entry-points table next to a
  \<open>scripts\<close> table.
\<close>

definition dynamic_version_document :: dict where
  "dynamic_version_document =
     [(''project'', VDict [(''name'', VStr ''pkg''), (''dynamic'', VList [VStr ''version''])]),
      (''tool'', VDict [(''setuptools'', VDict [(''dynamic'',
         VDict [(''version'', VDict [(''attr'', VStr ''pkg.__version__'')])])])])]"

definition scripts_document :: dict where
  "scripts_document =
     [(''project'', VDict [(''name'', VStr ''pkg''), (''version'', VStr ''1.0''),
         (''entry-points'', VDict [(''pytest11'', VDict [(''plugin'', VStr ''pkg.plugin'')])]),
         (''scripts'', VDict [(''run'', VStr ''pkg:main'')])]),
      (''tool'', VDict [(''setuptools'', VDict [])])]"


text \<open>
  The assignments \<open>entry_points[name] = project.pop(key)\<close> that the loop of
  \<open>_unify_entry_points\<close> makes, in their order: they depend on the project table only.
\<close>

fun unify_assignments :: "env \<Rightarrow> dict \<Rightarrow> dict \<Rightarrow> (string \<times> val) list" where
  "unify_assignments env [] project = []"
| "unify_assignments env ((key, value) # rest) project =
     (case renaming (json_compatible_key env key) of
        None \<Rightarrow> unify_assignments env rest project
      | Some name \<Rightarrow>
          (if truthy value then
             (case dict_get project key of
                None \<Rightarrow> []
              | Some popped \<Rightarrow> (name, popped) # unify_assignments env rest (dict_del project key))
           else unify_assignments env rest project))"

definition assign_all :: "(string \<times> val) list \<Rightarrow> dict \<Rightarrow> dict" where
  "assign_all assignments d = fold (\<lambda>kv d. dict_set d (fst kv) (snd kv)) assignments d"

section \<open>Basic facts\<close>

lemma andthen_simps [simp]: "andthen (Inl e) f = Inl e" "andthen (Inr x) f = f x"
  by (simp_all add: andthen_def)

lemma dict_get_set: "dict_get (dict_set d k v) k' = (if k' = k then Some v else dict_get d k')"
  by (induction d) (auto simp: dict_get_def)

lemma dict_has_iff: "dict_has d k = (dict_get d k \<noteq> None)"
  by (simp add: dict_has_def dict_get_def map_of_eq_None_iff)

lemma dict_has_set: "dict_has (dict_set d k v) k' = (k' = k \<or> dict_has d k')"
  by (simp add: dict_has_iff dict_get_set)

lemma dict_set_same: "dict_get d k = Some v \<Longrightarrow> dict_set d k v = d"
  by (induction d) (auto simp: dict_get_def split: if_splits)

lemma dict_set_twice: "dict_set (dict_set d k v) k v' = dict_set d k v'"
  by (induction d) auto

lemma set_config_plain:
  assumes "dict_get dist ''metadata'' = Some (VObject md)" "no_setter md field"
    "dict_has md field \<or> field \<in> SETUPTOOLS_PATCHES"
  shows "set_config env dist field value =
           Inr (dict_set dist ''metadata'' (VObject (dict_set md field value)))"
  using assms by (simp add: set_config_def no_setter_def)

lemma metadata_attr_set:
  "metadata_attr (dict_set dist ''metadata'' (VObject md)) name = dict_get md name"
  by (simp add: metadata_attr_def dict_get_set)

lemma no_setter_set:
  "field' \<noteq> ''set_'' @ field \<Longrightarrow> no_setter (dict_set md field' v) field = no_setter md field"
  by (simp add: no_setter_def dict_get_default_def dict_get_set)

text \<open>Unfolding everything runs the model on a concrete input.\<close>

lemmas run_defs = apply_config_def translate_def preprocess_def finalize_def call_method_def
  copy_command_options_def valid_command_options_def add_command_def known_options_def load_ep_def
  normalise_cmd_options_def normalise_cmd_option_key_def strip_chars_def option_warning_def
  unify_entry_points_def format_entry_def renaming_def dynamic_license_def dict_setdefault_def
  DEFAULT_LICENSE_FILES_def dispatch_def PYPROJECT_CORRESPONDENCE_def TOOL_TABLE_RENAMES_def
  python_requires_def project_urls_def url_key_def special_def people_def str_join_def
  license_def long_description_def set_config_def SETUPTOOLS_PATCHES_def
  json_compatible_key_def replace_char_def lower_def lower_char_def is_ascii_def
  dict_pop_def dict_get_default_def dict_del_def dict_get_def dict_has_def
  metadata_attr_def result_attr_def no_setter_def
  fresh_dist_def fresh_metadata_def example_env_def Let_def

section \<open>The readme translator\<close>

text \<open>
  C1, as the code has it. A readme given as a plain string is a file name: the string
  goes to \<open>expand.read_files\<close>. When the file is read, the description is the text
  read and the content type is the fixed \<open>text/x-rst\<close>; when reading fails, the
  translator fails with the reader's error. The metadata object is one that has the
  attribute \<open>long_description\<close> and no setter for the two fields.
\<close>

theorem C1_readme_string_is_a_file_name:
  assumes "dict_get dist ''metadata'' = Some (VObject md)"
    and "no_setter md ''long_description''"
    and "no_setter md ''long_description_content_type''"
    and "dict_has md ''long_description''"
  shows "long_description env dist (VStr s) root_dir =
           (case read_files env (VStr s) root_dir of
              Inl e \<Rightarrow> Inl e
            | Inr content \<Rightarrow>
                Inr (dict_set dist ''metadata''
                       (VObject (dict_set (dict_set md ''long_description'' (VStr content))
                          ''long_description_content_type'' (VStr ''text/x-rst'')))))"
proof (cases "read_files env (VStr s) root_dir")
  case (Inl e)
  then show ?thesis by (simp add: long_description_def)
next
  case (Inr t)
  let ?md1 = "dict_set md ''long_description'' (VStr t)"
  let ?d1 = "dict_set dist ''metadata'' (VObject ?md1)"
  have 1: "set_config env dist ''long_description'' (VStr t) = Inr ?d1"
    using assms by (simp add: set_config_plain)
  have 2: "set_config env ?d1 ''long_description_content_type'' (VStr ''text/x-rst'') =
             Inr (dict_set ?d1 ''metadata''
                    (VObject (dict_set ?md1 ''long_description_content_type''
                       (VStr ''text/x-rst''))))"
    using assms
    by (intro set_config_plain)
       (simp_all add: dict_get_set no_setter_set SETUPTOOLS_PATCHES_def)
  show ?thesis using Inr 1 2 by (simp add: long_description_def dict_set_twice)
qed

theorem C1_witness:
  "long_description example_env fresh_dist (VStr ''README.rst'') ''.'' =
     Inr [(''metadata'',
           VObject (dict_set (dict_set fresh_metadata ''long_description''
                      (VStr ''Project documentation''))
                    ''long_description_content_type'' (VStr ''text/x-rst''))),
          (''command_options'', VDict []),
          (''_finalize_requires'', VMethod ''_finalize_requires''),
          (''_finalize_license_files'', VMethod ''_finalize_license_files'')]"
  using C1_readme_string_is_a_file_name
          [of fresh_dist fresh_metadata example_env "''README.rst''" "''.''"]
  by (simp add: fresh_dist_def fresh_metadata_def example_env_def dict_get_def no_setter_def
        dict_get_default_def dict_has_def)

text \<open>
  C1 as the specification states it fails: with \<open>README.rst\<close> holding other text, the
  description is that text, not the string \<open>README.rst\<close>.
\<close>

theorem C1_counterexample:
  "result_attr (long_description example_env fresh_dist (VStr ''README.rst'') ''.'')
       ''long_description'' = Some (VStr ''Project documentation'')
   \<and> result_attr (long_description example_env fresh_dist (VStr ''README.rst'') ''.'')
       ''long_description'' \<noteq> Some (VStr ''README.rst'')"
  by (simp add: long_description_def set_config_def fresh_dist_def fresh_metadata_def
        example_env_def dict_get_def dict_get_default_def dict_has_def metadata_attr_def
        result_attr_def SETUPTOOLS_PATCHES_def)

section \<open>People\<close>

lemma people_loop_spec:
  "\<forall>p\<in>set ps. person_ok env p \<Longrightarrow>
   people_loop env (map VDict ps) (f, ef) =
     Inr (f @ map VStr (concat (map spec_name_tokens ps)),
          ef @ map VStr (concat (map (spec_email_tokens env) ps)))"
proof (induction ps arbitrary: f ef)
  case Nil
  then show ?case by simp
next
  case (Cons p ps)
  then have ok: "person_ok env p" and rest: "\<forall>p\<in>set ps. person_ok env p" by simp_all
  show ?case
    using ok Cons.IH [OF rest]
    by (auto simp: person_ok_def spec_name_tokens_def spec_email_tokens_def dict_has_iff
          dict_get_default_def split: option.splits val.splits sum.splits)
qed

lemma as_strs_map: "as_strs (map VStr xs) = Inr xs"
  by (induction xs) simp_all

lemma str_join_map: "str_join sep (map VStr xs) = Inr (join sep xs)"
  by (simp add: str_join_def as_strs_map)

lemma people_result:
  assumes md: "dict_get dist ''metadata'' = Some (VObject md)"
    and s1: "no_setter md kind" and s2: "no_setter md (kind @ ''_email'')"
    and h1: "dict_has md kind" and h2: "dict_has md (kind @ ''_email'')"
    and ok: "\<forall>p\<in>set ps. person_ok env p"
  shows "people env dist (VList (map VDict ps)) root_dir kind =
     Inr (dict_set dist ''metadata'' (VObject
       (let names = concat (map spec_name_tokens ps);
            emails = concat (map (spec_email_tokens env) ps);
            md1 = (if names = [] then md else dict_set md kind (VStr (join '', '' names)))
        in if emails = [] then md1
           else dict_set md1 (kind @ ''_email'') (VStr (join '', '' emails)))))"
proof -
  let ?names = "concat (map spec_name_tokens ps)"
  let ?emails = "concat (map (spec_email_tokens env) ps)"
  let ?md1 = "dict_set md kind (VStr (join '', '' ?names))"
  have loop: "people_loop env (map VDict ps) ([], []) = Inr (map VStr ?names, map VStr ?emails)"
    using people_loop_spec [OF ok, of "[]" "[]"] by simp
  have ne: "kind \<noteq> ''set_'' @ kind @ ''_email''"
  proof
    assume "kind = ''set_'' @ kind @ ''_email''"
    then have "length kind = length (''set_'' @ kind @ ''_email'')" by simp
    then show False by simp
  qed
  have a: "set_config env dist kind v =
             Inr (dict_set dist ''metadata'' (VObject (dict_set md kind v)))" for v
    using md s1 h1 by (simp add: set_config_plain)
  have b: "set_config env dist (kind @ ''_email'') v =
             Inr (dict_set dist ''metadata'' (VObject (dict_set md (kind @ ''_email'') v)))" for v
    using md s2 h2 by (simp add: set_config_plain)
  have c: "set_config env (dict_set dist ''metadata'' (VObject ?md1)) (kind @ ''_email'') v =
             Inr (dict_set dist ''metadata'' (VObject (dict_set ?md1 (kind @ ''_email'') v)))" for v
  proof -
    have "set_config env (dict_set dist ''metadata'' (VObject ?md1)) (kind @ ''_email'') v =
          Inr (dict_set (dict_set dist ''metadata'' (VObject ?md1)) ''metadata''
                 (VObject (dict_set ?md1 (kind @ ''_email'') v)))"
      using s2 h2 ne
      by (intro set_config_plain) (simp_all add: dict_get_set no_setter_set dict_has_set)
    then show ?thesis by (simp add: dict_set_twice)
  qed
  have d: "dict_set dist ''metadata'' (VObject md) = dist"
    using md by (rule dict_set_same)
  show ?thesis
    by (simp add: people_def loop str_join_map a b c d Let_def)
qed

lemma kind_ne: "kind @ ''_email'' \<noteq> kind"
  by (metis append_self_conv list.distinct(1))

lemma person_tokens:
  assumes "person_ok env p"
  shows "(dict_has p ''name'' \<and> dict_has p ''email'' \<longrightarrow>
            spec_name_tokens p = [] \<and> length (spec_email_tokens env p) = 1)
       \<and> (dict_has p ''name'' \<and> \<not> dict_has p ''email'' \<longrightarrow>
            dict_get p ''name'' = Some (VStr (hd (spec_name_tokens p)))
            \<and> length (spec_name_tokens p) = 1 \<and> spec_email_tokens env p = [])
       \<and> (\<not> dict_has p ''name'' \<longrightarrow>
            spec_name_tokens p = []
            \<and> dict_get p ''email'' = Some (VStr (hd (spec_email_tokens env p)))
            \<and> length (spec_email_tokens env p) = 1)"
proof (cases "dict_get p ''name''")
  case None
  with assms show ?thesis
    by (cases "dict_get p ''email''")
       (auto simp: person_ok_def spec_name_tokens_def spec_email_tokens_def dict_has_iff
          split: val.splits)
next
  case (Some n)
  show ?thesis
  proof (cases "dict_get p ''email''")
    case None
    with Some assms show ?thesis
      by (cases n)
         (simp_all add: person_ok_def spec_name_tokens_def spec_email_tokens_def dict_has_iff)
  next
    case (Some e)
    with \<open>dict_get p ''name'' = Some n\<close> assms show ?thesis
      by (cases "address_str env n e"; cases n)
         (simp_all add: person_ok_def spec_name_tokens_def spec_email_tokens_def dict_has_iff)
  qed
qed

text \<open>
  C2, as the code has it. For every list of well-formed person records of a role, the
  translator succeeds; the plain-name field is assigned the names of the persons that
  have no e-mail, joined by a comma and a space, and is left as it was when there is no
  such person; the e-mail field is assigned the tokens of the other persons in the same
  way. A person with both contributes no name token and exactly one e-mail token, the
  formatter's; a person with only a name contributes exactly that name and no e-mail
  token; a person with only an e-mail contributes exactly the bare e-mail.
\<close>

theorem C2_people_fields:
  assumes md: "dict_get dist ''metadata'' = Some (VObject md)"
    and s1: "no_setter md kind" and s2: "no_setter md (kind @ ''_email'')"
    and h1: "dict_has md kind" and h2: "dict_has md (kind @ ''_email'')"
    and ok: "\<forall>p\<in>set ps. person_ok env p"
  shows "\<exists>dist'.
     people env dist (VList (map VDict ps)) root_dir kind = Inr dist'
   \<and> metadata_attr dist' kind =
        (if concat (map spec_name_tokens ps) = [] then metadata_attr dist kind
         else Some (VStr (join '', '' (concat (map spec_name_tokens ps)))))
   \<and> metadata_attr dist' (kind @ ''_email'') =
        (if concat (map (spec_email_tokens env) ps) = []
         then metadata_attr dist (kind @ ''_email'')
         else Some (VStr (join '', '' (concat (map (spec_email_tokens env) ps)))))
   \<and> (\<forall>p\<in>set ps.
        (dict_has p ''name'' \<and> dict_has p ''email'' \<longrightarrow>
            spec_name_tokens p = [] \<and> length (spec_email_tokens env p) = 1)
       \<and> (dict_has p ''name'' \<and> \<not> dict_has p ''email'' \<longrightarrow>
            dict_get p ''name'' = Some (VStr (hd (spec_name_tokens p)))
            \<and> length (spec_name_tokens p) = 1 \<and> spec_email_tokens env p = [])
       \<and> (\<not> dict_has p ''name'' \<longrightarrow>
            spec_name_tokens p = []
            \<and> dict_get p ''email'' = Some (VStr (hd (spec_email_tokens env p)))
            \<and> length (spec_email_tokens env p) = 1))"
proof -
  have attr: "metadata_attr dist f = dict_get md f" for f
    using md by (simp add: metadata_attr_def)
  let ?dist' = "dict_set dist ''metadata'' (VObject
       (let names = concat (map spec_name_tokens ps);
            emails = concat (map (spec_email_tokens env) ps);
            md1 = (if names = [] then md else dict_set md kind (VStr (join '', '' names)))
        in if emails = [] then md1
           else dict_set md1 (kind @ ''_email'') (VStr (join '', '' emails))))"
  have 1: "people env dist (VList (map VDict ps)) root_dir kind = Inr ?dist'"
    by (rule people_result [OF md s1 s2 h1 h2 ok])
  have 2: "metadata_attr ?dist' kind =
        (if concat (map spec_name_tokens ps) = [] then metadata_attr dist kind
         else Some (VStr (join '', '' (concat (map spec_name_tokens ps)))))"
    by (simp add: metadata_attr_set attr Let_def dict_get_set kind_ne [symmetric])
  have 3: "metadata_attr ?dist' (kind @ ''_email'') =
        (if concat (map (spec_email_tokens env) ps) = []
         then metadata_attr dist (kind @ ''_email'')
         else Some (VStr (join '', '' (concat (map (spec_email_tokens env) ps)))))"
    by (simp add: metadata_attr_set attr Let_def dict_get_set kind_ne)
  have 4: "\<forall>p\<in>set ps.
        (dict_has p ''name'' \<and> dict_has p ''email'' \<longrightarrow>
            spec_name_tokens p = [] \<and> length (spec_email_tokens env p) = 1)
       \<and> (dict_has p ''name'' \<and> \<not> dict_has p ''email'' \<longrightarrow>
            dict_get p ''name'' = Some (VStr (hd (spec_name_tokens p)))
            \<and> length (spec_name_tokens p) = 1 \<and> spec_email_tokens env p = [])
       \<and> (\<not> dict_has p ''name'' \<longrightarrow>
            spec_name_tokens p = []
            \<and> dict_get p ''email'' = Some (VStr (hd (spec_email_tokens env p)))
            \<and> length (spec_email_tokens env p) = 1)"
    using ok person_tokens by blast
  from 1 2 3 4 show ?thesis by blast
qed

theorem C2_witness:
  "person_ok example_env [(''name'', VStr ''A''), (''email'', VStr ''a@x.com'')]
   \<and> result_attr (people example_env fresh_dist
         (VList [VDict [(''name'', VStr ''A''), (''email'', VStr ''a@x.com'')]]) ''.'' ''author'')
       ''author_email'' = Some (VStr ''A <a@x.com>'')
   \<and> result_attr (people example_env fresh_dist
         (VList [VDict [(''name'', VStr ''A''), (''email'', VStr ''a@x.com'')]]) ''.'' ''author'')
       ''author'' = Some VNone"
proof -
  have ok: "person_ok example_env [(''name'', VStr ''A''), (''email'', VStr ''a@x.com'')]"
    by (simp add: person_ok_def dict_get_def example_env_def)
  have e: "spec_email_tokens example_env [(''name'', VStr ''A''), (''email'', VStr ''a@x.com'')] = [''A <a@x.com>'']"
    by (simp add: spec_email_tokens_def dict_get_def example_env_def)
  have n: "spec_name_tokens [(''name'', VStr ''A''), (''email'', VStr ''a@x.com'')] = []"
    by (simp add: spec_name_tokens_def dict_get_def)
  have f: "metadata_attr fresh_dist ''author'' = Some VNone"
    by (simp add: metadata_attr_def fresh_dist_def fresh_metadata_def dict_get_def)
  from C2_people_fields [of fresh_dist fresh_metadata "''author''"
      "[[(''name'', VStr ''A''), (''email'', VStr ''a@x.com'')]]" example_env "''.''"]
  show ?thesis
    using ok e n f
    by (auto simp: result_attr_def fresh_dist_def fresh_metadata_def dict_get_def dict_has_def
          no_setter_def dict_get_default_def)
qed

text \<open>
  C2 as the specification states it fails on its end-to-end document: the author's
  e-mail field is \<open>A <a@x.com>\<close>, but the plain-name field is not assigned and is
  still \<open>None\<close>, not the empty string.
\<close>

theorem C2_counterexample:
  "result_attr (out_result (apply_config example_env fresh_dist e2e_document ''.'' ''/home''))
     ''author_email'' = Some (VStr ''A <a@x.com>'')
   \<and> result_attr (out_result (apply_config example_env fresh_dist e2e_document ''.'' ''/home''))
     ''author'' = Some VNone
   \<and> result_attr (out_result (apply_config example_env fresh_dist e2e_document ''.'' ''/home''))
     ''author'' \<noteq> Some (VStr [])"
  by (simp add: run_defs e2e_document_def)

section \<open>Dynamic license\<close>

lemma norm_license_files: "json_compatible_key env ''license_files'' = ''license_files''"
  by (simp add: json_compatible_key_def lower_def lower_char_def is_ascii_def replace_char_def)

lemma dict_set_append: "\<not> dict_has d k \<Longrightarrow> dict_set d k v = d @ [(k, v)]"
  by (induction d) (auto simp: dict_has_def)

lemma project_fields_append:
  "project_fields env dist (xs @ ys) root_dir =
     andthen (project_fields env dist xs root_dir) (\<lambda>d. project_fields env d ys root_dir)"
proof (induction xs arbitrary: dist)
  case Nil
  then show ?case by simp
next
  case (Cons x xs)
  obtain field v where x: "x = (field, v)" by (cases x)
  show ?case
    by (cases "dispatch env dist field v root_dir") (simp_all add: x Cons.IH)
qed

lemma dynamic_license_default:
  assumes "dict_get pt ''dynamic'' = Some (VList [VStr ''license''])"
  shows "dynamic_license env pt (VDict []) =
           Inr (dict_set pt ''license_files'' DEFAULT_LICENSE_FILES, [])"
  using assms
  by (simp add: dynamic_license_def dict_get_default_def dict_setdefault_def dict_has_def
        dict_get_def norm_license_files
        json_compatible_key_def lower_def lower_char_def is_ascii_def replace_char_def)

lemma dispatch_license_files:
  "dispatch env dist ''license_files'' v root_dir = set_config env dist ''license_files'' v"
  by (simp add: dispatch_def norm_license_files PYPROJECT_CORRESPONDENCE_def)

text \<open>
  C3. For every project table with \<open>dynamic = ["license"]\<close> and no \<open>license_files\<close>
  key of its own, and the empty tool table: \<open>_dynamic_license\<close> adds the four default
  patterns, in their order, to the project table under \<open>license_files\<close> as its last
  field, and leaves the tool table empty. When the other fields of the project table
  are translated, into a distribution whose metadata object has no setter for
  \<open>license_files\<close>, the pass over the resolved project table followed by the pass over
  the empty tool table succeeds, and the model's \<open>license_files\<close> is exactly these
  four patterns.
\<close>

theorem C3_default_license_files:
  assumes dyn: "dict_get pt ''dynamic'' = Some (VList [VStr ''license''])"
    and new: "\<not> dict_has pt ''license_files''"
    and others: "project_fields env dist pt root_dir = Inr dist1"
    and md: "dict_get dist1 ''metadata'' = Some (VObject md)"
    and ns: "no_setter md ''license_files''"
  shows "\<exists>dist2.
       dynamic_license env pt (VDict []) =
         Inr (pt @ [(''license_files'', DEFAULT_LICENSE_FILES)], [])
     \<and> andthen
         (project_fields env dist (pt @ [(''license_files'', DEFAULT_LICENSE_FILES)]) root_dir)
         (\<lambda>d. tool_fields env d []) = Inr dist2
     \<and> metadata_attr dist2 ''license_files'' =
         Some (VTuple [VStr ''LICEN[CS]E*'', VStr ''COPYING*'', VStr ''NOTICE*'',
                       VStr ''AUTHORS*''])"
proof -
  let ?dist2 = "dict_set dist1 ''metadata''
                  (VObject (dict_set md ''license_files'' DEFAULT_LICENSE_FILES))"
  have 1: "dynamic_license env pt (VDict []) =
             Inr (pt @ [(''license_files'', DEFAULT_LICENSE_FILES)], [])"
    using dynamic_license_default [OF dyn] new by (simp add: dict_set_append)
  have s: "set_config env dist1 ''license_files'' DEFAULT_LICENSE_FILES = Inr ?dist2"
    using md ns by (simp add: set_config_plain SETUPTOOLS_PATCHES_def)
  have 2: "andthen
         (project_fields env dist (pt @ [(''license_files'', DEFAULT_LICENSE_FILES)]) root_dir)
         (\<lambda>d. tool_fields env d []) = Inr ?dist2"
    by (simp add: project_fields_append others dispatch_license_files s)
  have 3: "metadata_attr ?dist2 ''license_files'' =
         Some (VTuple [VStr ''LICEN[CS]E*'', VStr ''COPYING*'', VStr ''NOTICE*'',
                       VStr ''AUTHORS*''])"
    by (simp add: metadata_attr_set dict_get_set DEFAULT_LICENSE_FILES_def)
  from 1 2 3 show ?thesis by blast
qed

theorem C3_witness:
  "dynamic_license example_env
        [(''name'', VStr ''pkg''), (''dynamic'', VList [VStr ''license''])] (VDict []) =
       Inr ([(''name'', VStr ''pkg''), (''dynamic'', VList [VStr ''license'']),
             (''license_files'', DEFAULT_LICENSE_FILES)], [])
   \<and> result_attr
        (andthen
          (project_fields example_env fresh_dist
             [(''name'', VStr ''pkg''), (''dynamic'', VList [VStr ''license'']),
              (''license_files'', DEFAULT_LICENSE_FILES)] ''.'')
          (\<lambda>d. tool_fields example_env d []))
        ''license_files'' =
       Some (VTuple [VStr ''LICEN[CS]E*'', VStr ''COPYING*'', VStr ''NOTICE*'',
                     VStr ''AUTHORS*''])
   \<and> result_attr
        (out_result (apply_config example_env fresh_dist dynamic_license_document ''.'' ''/home''))
        ''license_files'' =
       Some (VTuple [VStr ''LICEN[CS]E*'', VStr ''COPYING*'', VStr ''NOTICE*'',
                     VStr ''AUTHORS*''])"
proof -
  let ?pt = "[(''name'', VStr ''pkg''), (''dynamic'', VList [VStr ''license''])]"
  let ?md = "dict_set fresh_metadata ''name'' (VStr ''pkg'')"
  let ?dist1 = "[(''metadata'', VObject ?md),
      (''command_options'', VDict []),
      (''_finalize_requires'', VMethod ''_finalize_requires''),
      (''_finalize_license_files'', VMethod ''_finalize_license_files''),
      (''dynamic'', VList [VStr ''license''])]"
  have h1: "dict_get ?pt ''dynamic'' = Some (VList [VStr ''license''])"
    by (simp add: dict_get_def)
  have h2: "\<not> dict_has ?pt ''license_files''"
    by (simp add: dict_has_def)
  have h3: "project_fields example_env fresh_dist ?pt ''.'' = Inr ?dist1"
    by (simp add: run_defs)
  have h4: "dict_get ?dist1 ''metadata'' = Some (VObject ?md)"
    by (simp add: dict_get_def)
  have h5: "no_setter ?md ''license_files''"
    by (simp add: no_setter_def fresh_metadata_def dict_get_default_def dict_get_def)
  have e: "result_attr
        (out_result (apply_config example_env fresh_dist dynamic_license_document ''.'' ''/home''))
        ''license_files'' =
       Some (VTuple [VStr ''LICEN[CS]E*'', VStr ''COPYING*'', VStr ''NOTICE*'',
                     VStr ''AUTHORS*''])"
    by (simp add: run_defs dynamic_license_document_def)
  from C3_default_license_files [OF h1 h2 h3 h4 h5]
  obtain dist2 where
    "dynamic_license example_env ?pt (VDict []) =
       Inr (?pt @ [(''license_files'', DEFAULT_LICENSE_FILES)], [])"
    and "andthen
         (project_fields example_env fresh_dist
            (?pt @ [(''license_files'', DEFAULT_LICENSE_FILES)]) ''.'')
         (\<lambda>d. tool_fields example_env d []) = Inr dist2"
    and "metadata_attr dist2 ''license_files'' =
         Some (VTuple [VStr ''LICEN[CS]E*'', VStr ''COPYING*'', VStr ''NOTICE*'',
                       VStr ''AUTHORS*''])"
    by blast
  with e show ?thesis by (simp add: result_attr_def)
qed

section \<open>The readme table\<close>

text \<open>
  C4, as the code has it. A readme table without \<open>content-type\<close> makes the translator
  fail before anything is assigned. When the table has a non-empty \<open>text\<close>, or its
  file has been read, the failure is the \<open>KeyError\<close> of the lookup
  \<open>val["content-type"]\<close>, which is not a configuration error. When the table has no
  such text and reading the file fails, that failure comes first and the translator
  fails with the reader's own error, of whatever kind the reader raises.
\<close>

theorem C4_readme_table_without_content_type:
  assumes "dict_get d ''content-type'' = None"
  shows "long_description env dist (VDict d) root_dir =
           (if truthy (dict_get_default d ''text'' VNone) then Inl (KeyError ''content-type'')
            else case read_files env (dict_get_default d ''file'' (VList [])) root_dir of
                   Inl e \<Rightarrow> Inl e
                 | Inr content \<Rightarrow> Inl (KeyError ''content-type''))
       \<and> (\<exists>e. long_description env dist (VDict d) root_dir = Inl e)
       \<and> \<not> is_configuration_error (KeyError ''content-type'')"
  using assms
  by (simp add: long_description_def is_configuration_error_def split: sum.splits)

theorem C4_witness:
  "long_description example_env fresh_dist (VDict [(''file'', VStr ''README.rst'')]) ''.''
     = Inl (KeyError ''content-type'')"
  using C4_readme_table_without_content_type
          [of "[(''file'', VStr ''README.rst'')]" example_env fresh_dist "''.''"]
  by (simp add: dict_get_def dict_get_default_def example_env_def)

text \<open>
  C4 as the specification states it fails: a table with \<open>text\<close> and no \<open>content-type\<close>
  raises a \<open>KeyError\<close>, which is not a configuration error.
\<close>

theorem C4_counterexample:
  "long_description example_env fresh_dist (VDict [(''text'', VStr ''Hello'')]) ''.''
     = Inl (KeyError ''content-type'')
   \<and> \<not> is_configuration_error (KeyError ''content-type'')"
  by (simp add: run_defs is_configuration_error_def)

section \<open>Command options\<close>

lemma record_options_result:
  "dict_get co cmd = Some (VDict opts) \<Longrightarrow>
   record_options env valid cmd items co log =
     (log @ map (option_warning cmd)
              (filter (\<lambda>k. k \<notin> valid) (map (\<lambda>kv. json_compatible_key env (fst kv)) items)),
      Inr (dict_set co cmd
             (VDict (fold (\<lambda>kv opts. dict_set opts (json_compatible_key env (fst kv)) (snd kv))
                       items opts))))"
proof (induction items arbitrary: co opts log)
  case Nil
  then show ?case by (simp add: dict_set_same)
next
  case (Cons kv items)
  obtain k v where kv: "kv = (k, v)" by (cases kv)
  let ?opts = "dict_set opts (json_compatible_key env k) v"
  let ?co = "dict_set co cmd (VDict ?opts)"
  have get: "dict_get ?co cmd = Some (VDict ?opts)" by (simp add: dict_get_set)
  show ?case
    using Cons.prems Cons.IH [OF get]
    by (simp add: kv Let_def dict_set_twice)
qed

lemma fold_dict_set_get:
  "dict_get (fold (\<lambda>kv opts. dict_set opts (f (fst kv)) (snd kv)) items opts) k =
     (case map_of (rev (map (\<lambda>kv. (f (fst kv), snd kv)) items)) k of
        Some v \<Rightarrow> Some v
      | None \<Rightarrow> dict_get opts k)"
proof (induction items arbitrary: opts)
  case Nil
  then show ?case by simp
next
  case (Cons kv items)
  show ?case
    by (simp add: Cons.IH dict_get_set map_add_def split: option.splits)
qed


lemma command_option_set:
  "command_option (VDict (dict_set co cmd (VDict opts))) c k =
     (if c = cmd then dict_get opts k else command_option (VDict co) c k)"
  by (simp add: command_option_def dict_get_set)

lemma command_option_setdefault:
  "command_option (VDict (dict_setdefault co cmd (VDict []))) c k = command_option (VDict co) c k"
  by (auto simp: command_option_def dict_setdefault_def dict_has_iff dict_get_def map_add_def
        split: option.splits val.splits if_splits)

lemma dict_get_setdefault_table:
  assumes "\<forall>v\<in>snd ` set co. is_table v"
  shows "\<exists>opts. dict_get (dict_setdefault co cmd (VDict [])) cmd = Some (VDict opts)
           \<and> dict_get opts = (\<lambda>k. command_option (VDict co) cmd k)"
proof (cases "dict_get co cmd")
  case None
  then have "dict_get (dict_setdefault co cmd (VDict [])) cmd = Some (VDict [])"
    by (simp add: dict_setdefault_def dict_has_iff dict_get_def map_add_def)
  moreover have "dict_get [] = (\<lambda>k. command_option (VDict co) cmd k)"
    using None by (simp add: dict_get_def command_option_def fun_eq_iff)
  ultimately show ?thesis by blast
next
  case (Some v)
  then have "v \<in> snd ` set co"
    by (metis dict_get_def image_eqI map_of_SomeD snd_conv)
  with assms have "is_table v" by blast
  then obtain opts where "v = VDict opts" by (cases v) simp_all
  with Some show ?thesis
    by (auto simp: dict_setdefault_def dict_has_iff command_option_def)
qed

lemma tables_set:
  "\<forall>v\<in>snd ` set co. is_table v \<Longrightarrow> is_table v \<Longrightarrow> \<forall>w\<in>snd ` set (dict_set co k v). is_table w"
  by (induction co) auto

lemma tables_setdefault:
  "\<forall>v\<in>snd ` set co. is_table v \<Longrightarrow> \<forall>w\<in>snd ` set (dict_setdefault co k (VDict [])). is_table w"
  by (auto simp: dict_setdefault_def)

lemma map_of_triples_cmd:
  "map_of (map (\<lambda>kv. ((c0, f (fst kv)), snd kv)) xs) (c, k) =
     (if c = c0 then map_of (map (\<lambda>kv. (f (fst kv), snd kv)) xs) k else None)"
  by (induction xs) auto

lemma copy_commands_result:
  assumes "\<forall>cfg\<in>snd ` set du. is_table cfg" and "\<forall>v\<in>snd ` set co. is_table v"
  shows "\<exists>co'. copy_commands env valid_options du (VDict co) log =
           (log @ map (\<lambda>(c, k, v). option_warning c k)
                    (filter (\<lambda>(c, k, v). k \<notin> known_options valid_options c) (option_triples env du)),
            Inr (VDict co'))
         \<and> (\<forall>v\<in>snd ` set co'. is_table v)
         \<and> (\<forall>c k. command_option (VDict co') c k =
               (case map_of (rev (map (\<lambda>(c, k, v). ((c, k), v)) (option_triples env du))) (c, k) of
                  Some v \<Rightarrow> Some v
                | None \<Rightarrow> command_option (VDict co) c k))"
  using assms
proof (induction du arbitrary: co log)
  case Nil
  then show ?case by (simp add: option_triples_def)
next
  case (Cons x du)
  obtain cmd cfg where x: "x = (cmd, cfg)" by (cases x)
  from Cons.prems(1) x have "is_table cfg" by simp
  then obtain items where cfg: "cfg = VDict items" by (cases cfg) simp_all
  let ?cmd = "json_compatible_key env cmd"
  let ?co1 = "dict_setdefault co ?cmd (VDict [])"
  obtain opts where opts: "dict_get ?co1 ?cmd = Some (VDict opts)"
      and opts_get: "dict_get opts = (\<lambda>k. command_option (VDict co) ?cmd k)"
    using dict_get_setdefault_table [OF Cons.prems(2)] by blast
  let ?opts' = "fold (\<lambda>kv opts. dict_set opts (json_compatible_key env (fst kv)) (snd kv)) items opts"
  let ?co2 = "dict_set ?co1 ?cmd (VDict ?opts')"
  let ?ws = "map (option_warning ?cmd)
              (filter (\<lambda>k. k \<notin> known_options valid_options ?cmd)
                 (map (\<lambda>kv. json_compatible_key env (fst kv)) items))"
  have rec: "record_options env (known_options valid_options ?cmd) ?cmd items ?co1 log =
               (log @ ?ws, Inr ?co2)"
    by (rule record_options_result [OF opts])
  have tabs: "\<forall>v\<in>snd ` set ?co2. is_table v"
    by (intro tables_set tables_setdefault Cons.prems(2)) simp
  from Cons.prems(1) have du: "\<forall>cfg\<in>snd ` set du. is_table cfg" by simp
  from Cons.IH [OF du tabs, of "log @ ?ws"]
  obtain co' where
    run: "copy_commands env valid_options du (VDict ?co2) (log @ ?ws) =
           ((log @ ?ws) @ map (\<lambda>(c, k, v). option_warning c k)
                    (filter (\<lambda>(c, k, v). k \<notin> known_options valid_options c) (option_triples env du)),
            Inr (VDict co'))"
    and tabs': "\<forall>v\<in>snd ` set co'. is_table v"
    and look: "\<forall>c k. command_option (VDict co') c k =
               (case map_of (rev (map (\<lambda>(c, k, v). ((c, k), v)) (option_triples env du))) (c, k) of
                  Some v \<Rightarrow> Some v
                | None \<Rightarrow> command_option (VDict ?co2) c k)"
    by blast
  have trip: "option_triples env (x # du) =
                map (\<lambda>kv. (?cmd, json_compatible_key env (fst kv), snd kv)) items @ option_triples env du"
    by (simp add: option_triples_def x cfg case_prod_unfold)
  have step: "copy_commands env valid_options (x # du) (VDict co) log =
                copy_commands env valid_options du (VDict ?co2) (log @ ?ws)"
    by (simp add: x cfg Let_def rec)
  have ws: "map (\<lambda>(c, k, v). option_warning c k)
              (filter (\<lambda>(c, k, v). k \<notin> known_options valid_options c)
                 (map (\<lambda>kv. (?cmd, json_compatible_key env (fst kv), snd kv)) items)) = ?ws"
    by (induction items) auto
  have 1: "copy_commands env valid_options (x # du) (VDict co) log =
           (log @ map (\<lambda>(c, k, v). option_warning c k)
                    (filter (\<lambda>(c, k, v). k \<notin> known_options valid_options c)
                       (option_triples env (x # du))),
            Inr (VDict co'))"
    unfolding step run trip by (simp add: ws)
  have 3: "command_option (VDict co') c k =
               (case map_of (rev (map (\<lambda>(c, k, v). ((c, k), v)) (option_triples env (x # du)))) (c, k) of
                  Some v \<Rightarrow> Some v
                | None \<Rightarrow> command_option (VDict co) c k)" for c k
  proof -
    let ?A = "map (\<lambda>kv. ((?cmd, json_compatible_key env (fst kv)), snd kv)) items"
    let ?B = "map (\<lambda>(c, k, v). ((c, k), v)) (option_triples env du)"
    have m: "map (\<lambda>(c, k, v). ((c, k), v)) (option_triples env (x # du)) = ?A @ ?B"
      unfolding trip by simp
    have first: "command_option (VDict ?co2) c k =
        (case map_of (rev ?A) (c, k) of
           Some v \<Rightarrow> Some v
         | None \<Rightarrow> command_option (VDict co) c k)"
      by (simp add: command_option_set command_option_setdefault fold_dict_set_get opts_get
            rev_map map_of_triples_cmd split: option.splits)
    have "command_option (VDict co') c k =
            (case map_of (rev ?B) (c, k) of
               Some v \<Rightarrow> Some v
             | None \<Rightarrow> command_option (VDict ?co2) c k)"
      using look by blast
    also have "\<dots> = (case map_of (rev (?A @ ?B)) (c, k) of
                  Some v \<Rightarrow> Some v
                | None \<Rightarrow> command_option (VDict co) c k)"
      unfolding first by (simp add: map_add_def split: option.splits)
    finally show ?thesis unfolding m .
  qed
  from 1 tabs' 3 show ?case by blast
qed

text \<open>
  C5. The document has a per-command overrides table \<open>tool.distutils\<close> whose entries
  are tables, and the distribution's \<open>command_options\<close> is a table of tables. Then
  \<open>_copy_command_options\<close> returns normally. The log is the warnings of the entry
  points that failed to load, followed by exactly one warning for each triple whose
  normalised option name is not in the known-option set of its normalised command, in
  the order of the table, and none for the others. Every triple is recorded, known or
  not: looking up a normalised command and option in the new \<open>command_options\<close> gives
  the value of the last triple with these names, and what was there before when the
  table has no such triple.
\<close>

theorem C5_command_options_recorded:
  assumes tool: "dict_get config ''tool'' = Some (VDict tool_table)"
    and st: "dict_get tool_table ''setuptools'' = Some (VDict st)"
    and cc: "is_table (dict_get_default st ''cmdclass'' (VDict []))"
    and du: "dict_get tool_table ''distutils'' = Some (VDict du)"
    and du_tables: "\<forall>cfg\<in>snd ` set du. is_table cfg"
    and co: "dict_get dist ''command_options'' = Some (VDict co)"
    and co_tables: "\<forall>v\<in>snd ` set co. is_table v"
  shows "\<exists>valid_options co'.
      snd (valid_command_options env (dict_get_default st ''cmdclass'' (VDict []))) =
        Inr valid_options
    \<and> copy_command_options env config dist =
        (fst (load_eps (iter_entry_points env))
           @ map (\<lambda>(c, k, v). option_warning c k)
               (filter (\<lambda>(c, k, v). k \<notin> known_options valid_options c) (option_triples env du)),
         Inr (dict_set dist ''command_options'' (VDict co')))
    \<and> (\<forall>c k. command_option (VDict co') c k =
          (case map_of (rev (map (\<lambda>(c, k, v). ((c, k), v)) (option_triples env du))) (c, k) of
             Some v \<Rightarrow> Some v
           | None \<Rightarrow> command_option (VDict co) c k))"
proof -
  from cc obtain cmdclass where cmdclass: "dict_get_default st ''cmdclass'' (VDict []) = VDict cmdclass"
    by (cases "dict_get_default st ''cmdclass'' (VDict [])") simp_all
  obtain ws eps where eps: "load_eps (iter_entry_points env) = (ws, eps)"
    by (cases "load_eps (iter_entry_points env)")
  define vo where "vo = fold (add_command env) (eps @ cmdclass)
               [''global'' \<mapsto> normalise_cmd_options env (global_options env)]"
  have vco: "valid_command_options env (VDict cmdclass) = (ws, Inr vo)"
    by (simp add: valid_command_options_def eps vo_def)
  from copy_commands_result [OF du_tables co_tables, of env vo ws]
  obtain co' where
    run: "copy_commands env vo du (VDict co) ws =
           (ws @ map (\<lambda>(c, k, v). option_warning c k)
                    (filter (\<lambda>(c, k, v). k \<notin> known_options vo c) (option_triples env du)),
            Inr (VDict co'))"
    and look: "\<forall>c k. command_option (VDict co') c k =
               (case map_of (rev (map (\<lambda>(c, k, v). ((c, k), v)) (option_triples env du))) (c, k) of
                  Some v \<Rightarrow> Some v
                | None \<Rightarrow> command_option (VDict co) c k)"
    by blast
  have "copy_command_options env config dist =
        (ws @ map (\<lambda>(c, k, v). option_warning c k)
               (filter (\<lambda>(c, k, v). k \<notin> known_options vo c) (option_triples env du)),
         Inr (dict_set dist ''command_options'' (VDict co')))"
    by (simp add: copy_command_options_def dict_get_default_def tool st du co
          cmdclass [unfolded dict_get_default_def] vco run)
  with look vco show ?thesis
    by (simp add: cmdclass eps) blast
qed


theorem C5_witness:
  "fst (copy_command_options example_env bogus_flag_document fresh_dist) =
     [''Command option build.bogus_flag is not defined'']
   \<and> (case snd (copy_command_options example_env bogus_flag_document fresh_dist) of
        Inl e \<Rightarrow> False
      | Inr dist \<Rightarrow>
          command_option (dict_get_default dist ''command_options'' VNone)
            ''build'' ''bogus_flag'' = Some (VInt 1)
        \<and> command_option (dict_get_default dist ''command_options'' VNone)
            ''build'' ''build_base'' = Some (VStr ''out''))
   \<and> out_log (apply_config example_env fresh_dist bogus_flag_document ''.'' ''/home'') =
       [''Command option build.bogus_flag is not defined'']
   \<and> (case out_result (apply_config example_env fresh_dist bogus_flag_document ''.'' ''/home'') of
        Inl e \<Rightarrow> False
      | Inr dist \<Rightarrow>
          command_option (dict_get_default dist ''command_options'' VNone)
            ''build'' ''bogus_flag'' = Some (VInt 1))"
proof -
  let ?du = "[(''build'', VDict [(''bogus_flag'', VInt 1), (''build-base'', VStr ''out'')])]"
  let ?tool = "[(''setuptools'', VDict []), (''distutils'', VDict ?du)]"
  have h1: "dict_get bogus_flag_document ''tool'' = Some (VDict ?tool)"
    by (simp add: bogus_flag_document_def dict_get_def)
  have h2: "dict_get ?tool ''setuptools'' = Some (VDict [])"
    by (simp add: dict_get_def)
  have h3: "is_table (dict_get_default [] ''cmdclass'' (VDict []))"
    by (simp add: dict_get_default_def dict_get_def)
  have h4: "dict_get ?tool ''distutils'' = Some (VDict ?du)"
    by (simp add: dict_get_def)
  have h5: "\<forall>cfg\<in>snd ` set ?du. is_table cfg" by simp
  have h6: "dict_get fresh_dist ''command_options'' = Some (VDict [])"
    by (simp add: fresh_dist_def dict_get_def)
  have h7: "\<forall>v\<in>snd ` set []. is_table v" by simp
  have trip: "option_triples example_env ?du =
      [(''build'', ''bogus_flag'', VInt 1), (''build'', ''build_base'', VStr ''out'')]"
    by (simp add: option_triples_def json_compatible_key_def lower_def lower_char_def is_ascii_def
          replace_char_def)
  have vo: "snd (valid_command_options example_env (dict_get_default [] ''cmdclass'' (VDict [])))
              = Inr vo \<Longrightarrow> known_options vo ''build'' = {''build_base'', ''debug''}" for vo
    by (auto simp: run_defs)
  have eps: "fst (load_eps (iter_entry_points example_env)) = []"
    by (simp add: example_env_def load_ep_def)
  from C5_command_options_recorded [OF h1 h2 h3 h4 h5 h6 h7, of example_env]
  obtain valid_options co' where
    v: "snd (valid_command_options example_env (dict_get_default [] ''cmdclass'' (VDict []))) =
        Inr valid_options"
    and run: "copy_command_options example_env bogus_flag_document fresh_dist =
        (fst (load_eps (iter_entry_points example_env))
           @ map (\<lambda>(c, k, v). option_warning c k)
               (filter (\<lambda>(c, k, v). k \<notin> known_options valid_options c) (option_triples example_env ?du)),
         Inr (dict_set fresh_dist ''command_options'' (VDict co')))"
    and look: "\<forall>c k. command_option (VDict co') c k =
          (case map_of (rev (map (\<lambda>(c, k, v). ((c, k), v)) (option_triples example_env ?du))) (c, k) of
             Some v \<Rightarrow> Some v
           | None \<Rightarrow> command_option (VDict []) c k)"
    by blast
  have 1: "fst (copy_command_options example_env bogus_flag_document fresh_dist) =
     [''Command option build.bogus_flag is not defined'']"
    unfolding run trip eps by (simp add: vo [OF v] option_warning_def)
  have 2: "command_option (dict_get_default
             (dict_set fresh_dist ''command_options'' (VDict co')) ''command_options'' VNone)
            ''build'' ''bogus_flag'' = Some (VInt 1)
        \<and> command_option (dict_get_default
             (dict_set fresh_dist ''command_options'' (VDict co')) ''command_options'' VNone)
            ''build'' ''build_base'' = Some (VStr ''out'')"
    by (simp add: dict_get_default_def dict_get_set look trip)
  have 3: "out_log (apply_config example_env fresh_dist bogus_flag_document ''.'' ''/home'') =
       [''Command option build.bogus_flag is not defined'']"
    by (simp add: run_defs bogus_flag_document_def)
  have 4: "(case out_result (apply_config example_env fresh_dist bogus_flag_document ''.'' ''/home'') of
        Inl e \<Rightarrow> False
      | Inr dist \<Rightarrow>
          command_option (dict_get_default dist ''command_options'' VNone)
            ''build'' ''bogus_flag'' = Some (VInt 1))"
    by (simp add: run_defs command_option_def bogus_flag_document_def)
  from 1 2 3 4 show ?thesis by (simp add: run)
qed

section \<open>The working directory\<close>

lemma finalize_cwd: "chdir_ok env cwd \<Longrightarrow> fst (finalize env dist root_dir cwd) = cwd"
  by (simp add: finalize_def split: prod.splits)

lemma apply_config_cwd:
  "out_cwd (apply_config env dist config root_dir cwd) =
     (case snd (snd (translate env dist config root_dir)) of
        Inl e \<Rightarrow> cwd
      | Inr dist' \<Rightarrow> fst (finalize env dist' root_dir cwd))"
  by (simp add: apply_config_def split: prod.splits sum.splits)

text \<open>
  C6. When the directory the call started in can be entered again, the working directory
  after \<open>apply\<close> is the one before it, whatever the outcome: a failure before the
  directory change leaves it untouched, a failure to enter the project root leaves it
  untouched, and after the hooks, whether they returned or raised and wherever they
  moved to, \<open>finally\<close> goes back.
\<close>

theorem C6_working_directory_restored:
  assumes "chdir_ok env cwd"
  shows "out_cwd (apply_config env dist config root_dir cwd) = cwd"
  by (simp add: apply_config_cwd finalize_cwd [OF assms] split: sum.splits)

theorem C6_witness:
  "chdir_ok failing_env ''/home''
   \<and> out_result (apply_config failing_env fresh_dist e2e_document ''/project'' ''/home'') =
       Inl (OtherError ''hook failed'')
   \<and> out_cwd (apply_config failing_env fresh_dist e2e_document ''/project'' ''/home'') = ''/home''"
proof -
  have ok: "chdir_ok failing_env ''/home''"
    by (simp add: failing_env_def example_env_def)
  have r: "out_result (apply_config failing_env fresh_dist e2e_document ''/project'' ''/home'') =
       Inl (OtherError ''hook failed'')"
    by (simp add: run_defs failing_env_def e2e_document_def)
  from C6_working_directory_restored [OF ok, of fresh_dist e2e_document "''/project''"] ok r
  show ?thesis by simp
qed

section \<open>Project URLs\<close>

lemma not_setter_name: "take 4 t \<noteq> ''set_'' \<Longrightarrow> t \<noteq> ''set_'' @ f"
  by auto








section \<open>The input document\<close>

text \<open>
  C8 does not hold of the code. \<open>apply\<close> copies the project table, but the copy is
  shallow and the tool table is not copied at all. With a \<open>tool.setuptools.dynamic\<close>
  table that has no \<open>license_files\<close>, the call leaves that key, with the default
  patterns, in the caller's document; with an entry-points table next to a
  \<open>scripts\<close> table, it leaves a \<open>console_scripts\<close> group in the caller's
  entry-points table. In both runs the call returns a distribution.
\<close>

theorem C8_input_document_is_changed:
  "out_config (apply_config example_env fresh_dist dynamic_version_document ''.'' ''/home'') =
     [(''project'', VDict [(''name'', VStr ''pkg''), (''dynamic'', VList [VStr ''version''])]),
      (''tool'', VDict [(''setuptools'', VDict [(''dynamic'',
         VDict [(''version'', VDict [(''attr'', VStr ''pkg.__version__'')]),
                (''license_files'', DEFAULT_LICENSE_FILES)])])])]
   \<and> out_config (apply_config example_env fresh_dist dynamic_version_document ''.'' ''/home'')
       \<noteq> dynamic_version_document
   \<and> out_config (apply_config example_env fresh_dist scripts_document ''.'' ''/home'') =
     [(''project'', VDict [(''name'', VStr ''pkg''), (''version'', VStr ''1.0''),
         (''entry-points'', VDict [(''pytest11'', VDict [(''plugin'', VStr ''pkg.plugin'')]),
            (''console_scripts'', VDict [(''run'', VStr ''pkg:main'')])]),
         (''scripts'', VDict [(''run'', VStr ''pkg:main'')])]),
      (''tool'', VDict [(''setuptools'', VDict [])])]
   \<and> out_config (apply_config example_env fresh_dist scripts_document ''.'' ''/home'')
       \<noteq> scripts_document"
  by (simp add: run_defs dynamic_version_document_def scripts_document_def)

section \<open>Applying the same document twice\<close>

lemma dict_get_del: "dict_get (dict_del d k) k' = (if k' = k then None else dict_get d k')"
  by (induction d) (auto simp: dict_get_def dict_del_def)

lemma dict_has_del: "dict_has (dict_del d k) k' = (k' \<noteq> k \<and> dict_has d k')"
  by (simp add: dict_has_iff dict_get_del)

lemma dict_del_set_same: "dict_del (dict_set d k v) k = dict_del d k"
  by (induction d) (auto simp: dict_del_def)

lemma dict_del_set_other: "k \<noteq> k' \<Longrightarrow> dict_del (dict_set d k v) k' = dict_set (dict_del d k') k v"
  by (induction d) (auto simp: dict_del_def)

lemma dict_del_absent: "\<not> dict_has d k \<Longrightarrow> dict_del d k = d"
  by (induction d) (auto simp: dict_del_def dict_has_def)

lemma dict_set_commute:
  "k \<noteq> k' \<Longrightarrow> dict_has d k \<Longrightarrow>
   dict_set (dict_set d k v) k' v' = dict_set (dict_set d k' v') k v"
  by (induction d) (auto simp: dict_has_def)

lemma assign_all_Nil [simp]: "assign_all [] d = d"
  by (simp add: assign_all_def)

lemma assign_all_Cons [simp]: "assign_all ((k, v) # s) d = assign_all s (dict_set d k v)"
  by (simp add: assign_all_def)

lemma assign_all_has: "dict_has d k \<Longrightarrow> dict_has (assign_all s d) k"
  by (induction s arbitrary: d) (auto simp: dict_has_set)

lemma assign_all_get_other:
  "k \<notin> fst ` set s \<Longrightarrow> dict_get (assign_all s d) k = dict_get d k"
  by (induction s arbitrary: d) (auto simp: dict_get_set)

lemma assign_all_absorb:
  "k \<in> fst ` set s \<Longrightarrow> dict_has d k \<Longrightarrow> assign_all s (dict_set d k v) = assign_all s d"
proof (induction s arbitrary: d)
  case Nil
  then show ?case by simp
next
  case (Cons a s)
  obtain k1 v1 where a: "a = (k1, v1)" by (cases a)
  show ?case
  proof (cases "k1 = k")
    case True
    then show ?thesis by (simp add: a dict_set_twice)
  next
    case False
    with Cons.prems a have in_s: "k \<in> fst ` set s" by auto
    have "dict_set (dict_set d k v) k1 v1 = dict_set (dict_set d k1 v1) k v"
      by (rule dict_set_commute) (use False Cons.prems(2) in auto)
    moreover have "dict_has (dict_set d k1 v1) k"
      using Cons.prems(2) by (simp add: dict_has_set)
    ultimately show ?thesis
      using Cons.IH [OF in_s] by (simp add: a)
  qed
qed

lemma assign_all_idem: "assign_all s (assign_all s d) = assign_all s d"
proof (induction s arbitrary: d)
  case Nil
  then show ?case by simp
next
  case (Cons a s)
  obtain k v where a: "a = (k, v)" by (cases a)
  let ?X = "assign_all s (dict_set d k v)"
  have has: "dict_has ?X k"
    by (intro assign_all_has) (simp add: dict_has_set)
  have "assign_all s (dict_set ?X k v) = ?X"
  proof (cases "k \<in> fst ` set s")
    case True
    from assign_all_absorb [OF True has] Cons.IH show ?thesis by simp
  next
    case False
    then have "dict_get ?X k = Some v"
      by (simp add: assign_all_get_other dict_get_set)
    then have "dict_set ?X k v = ?X" by (rule dict_set_same)
    with Cons.IH show ?thesis by simp
  qed
  then show ?case by (simp add: a)
qed

lemma unify_loop_assignments:
  "unify_loop env items (p, VDict e) = Inr (p', ep') \<Longrightarrow>
   unify_loop env items (p, VDict e2) = Inr (p', VDict (assign_all (unify_assignments env items p) e2))"
proof (induction items arbitrary: p e e2)
  case Nil
  then show ?case by simp
next
  case (Cons a items)
  obtain key v where a: "a = (key, v)" by (cases a)
  from Cons.prems show ?case
    by (auto simp: a split: option.splits if_splits dest: Cons.IH)
qed

lemma unify_loop_not_table:
  "unify_loop env items (p, ep) = Inr (p', ep') \<Longrightarrow> \<not> is_table ep \<Longrightarrow> ep' = ep"
proof (induction items arbitrary: p)
  case Nil
  then show ?case by simp
next
  case (Cons a items)
  obtain key v where a: "a = (key, v)" by (cases a)
  have IH: "unify_loop env items (q, ep) = Inr (p', ep') \<Longrightarrow> ep' = ep" for q
    using Cons.IH Cons.prems(2) by blast
  have nt: "(case ep of VDict ep0 \<Rightarrow> f ep0 | _ \<Rightarrow> Inl x) = Inl x"
    for f :: "dict \<Rightarrow> error + (dict \<times> val)" and x
    using Cons.prems(2) by (cases ep) simp_all
  from Cons.prems(1) show ?case
    by (auto simp: a nt split: option.splits if_splits dest: IH)
qed

lemma unify_loop_idem:
  assumes "unify_loop env items (p, ep) = Inr (p', ep')"
  shows "unify_loop env items (p, ep') = Inr (p', ep')"
proof (cases "is_table ep")
  case True
  then obtain e where e: "ep = VDict e" by (cases ep) simp_all
  from unify_loop_assignments [OF assms [unfolded e], of e] assms
  have ep': "ep' = VDict (assign_all (unify_assignments env items p) e)" by (simp add: e)
  from unify_loop_assignments [OF assms [unfolded e], of "assign_all (unify_assignments env items p) e"]
  show ?thesis by (simp add: ep' assign_all_idem)
next
  case False
  from unify_loop_not_table [OF assms False] assms show ?thesis by simp
qed

lemma unify_entry_points_idem:
  assumes "unify_entry_points env project = (changed, Inr pt)"
  shows "unify_entry_points env
           (case changed of None \<Rightarrow> project | Some (k, ep) \<Rightarrow> dict_set project k ep)
         = (changed, Inr pt)"
proof -
  let ?inner = "dict_get_default project ''entry_points'' (VDict [])"
  let ?p1 = "dict_del project ''entry_points''"
  let ?ep0 = "dict_get_default ?p1 ''entry-points'' ?inner"
  let ?p2 = "dict_del ?p1 ''entry-points''"
  obtain p3 ep1 where loop: "unify_loop env ?p2 (?p2, ?ep0) = Inr (p3, ep1)"
    using assms
    by (auto simp: unify_entry_points_def dict_pop_def Let_def split: sum.splits prod.splits)
  have loop2: "unify_loop env ?p2 (?p2, ep1) = Inr (p3, ep1)"
    by (rule unify_loop_idem [OF loop])
  let ?origin = "(if dict_has project ''entry-points'' then Some ''entry-points''
             else if dict_has project ''entry_points'' then Some ''entry_points''
             else None)"
  have changed: "changed = map_option (\<lambda>k. (k, ep1)) ?origin"
    using assms loop
    by (simp add: unify_entry_points_def dict_pop_def Let_def)
  have res: "(if truthy ep1 then
                (case ep1 of
                   VDict groups \<Rightarrow>
                     andthen (format_groups env groups)
                       (\<lambda>fmt. Inr (dict_set p3 ''entry-points'' (VDict fmt)))
                 | _ \<Rightarrow> Inl (AttributeError ''items''))
              else Inr p3) = Inr pt"
    using assms loop
    by (simp add: unify_entry_points_def dict_pop_def Let_def)
  show ?thesis
  proof (cases "dict_has project ''entry-points''")
    case True
    let ?project' = "dict_set project ''entry-points'' ep1"
    have c: "changed = Some (''entry-points'', ep1)" using changed True by simp
    have 1: "dict_get_default ?project' ''entry_points'' (VDict []) = ?inner"
      by (simp add: dict_get_default_def dict_get_set)
    have 2: "dict_del ?project' ''entry_points'' = dict_set ?p1 ''entry-points'' ep1"
      by (simp add: dict_del_set_other)
    have 3: "dict_get_default (dict_set ?p1 ''entry-points'' ep1) ''entry-points'' ?inner = ep1"
      by (simp add: dict_get_default_def dict_get_set)
    have 4: "dict_del (dict_set ?p1 ''entry-points'' ep1) ''entry-points'' = ?p2"
      by (simp add: dict_del_set_same)
    have 5: "dict_has ?project' ''entry-points''" by (simp add: dict_has_set)
    show ?thesis
      unfolding c
      by (simp add: unify_entry_points_def dict_pop_def Let_def 1 2 3 4 5 loop2 res)
  next
    case False
    show ?thesis
    proof (cases "dict_has project ''entry_points''")
      case True
      let ?project' = "dict_set project ''entry_points'' ep1"
      have c: "changed = Some (''entry_points'', ep1)" using changed True False by simp
      have 1: "dict_get_default ?project' ''entry_points'' (VDict []) = ep1"
        by (simp add: dict_get_default_def dict_get_set)
      have 2: "dict_del ?project' ''entry_points'' = ?p1"
        by (simp add: dict_del_set_same)
      have np: "\<not> dict_has ?p1 ''entry-points''"
        using False by (simp add: dict_has_del)
      then have 3: "dict_get_default ?p1 ''entry-points'' x = x" for x
        by (simp add: dict_get_default_def dict_has_iff)
      have 5: "\<not> dict_has ?project' ''entry-points''" "dict_has ?project' ''entry_points''"
        using False by (simp_all add: dict_has_set)
      have ep0: "?ep0 = ?inner" by (rule 3)
      show ?thesis
        unfolding c
        by (simp add: unify_entry_points_def dict_pop_def Let_def 1 2 3 5 loop2 res)
    next
      case no: False
      have c: "changed = None" using changed False no by simp
      have np: "\<not> dict_has ?p1 ''entry-points''"
        using False by (simp add: dict_has_del)
      then have 3: "dict_get_default ?p1 ''entry-points'' x = x" for x
        by (simp add: dict_get_default_def dict_has_iff)
      show ?thesis
        using assms by (simp add: c)
    qed
  qed
qed

lemma dict_setdefault_idem:
  "dict_setdefault (dict_setdefault d k v) k v' = dict_setdefault d k v"
  by (auto simp: dict_setdefault_def dict_has_def)

lemma dict_has_setdefault: "dict_has (dict_setdefault d k v) k' = (k' = k \<or> dict_has d k')"
  by (auto simp: dict_setdefault_def dict_has_def)

lemma dynamic_license_idem:
  assumes "dynamic_license env pt tool_table = Inr (pt', tt')"
  shows "dynamic_license env pt (VDict tt') = Inr (pt', tt')"
proof -
  obtain ks where ks: "py_iter (dict_get_default pt ''dynamic'' (VList [])) = Inr ks"
    using assms by (cases "py_iter (dict_get_default pt ''dynamic'' (VList []))")
                   (simp_all add: dynamic_license_def)
  obtain dynamic where dyn: "norm_keys env ks = Inr dynamic"
    using assms ks by (cases "norm_keys env ks") (simp_all add: dynamic_license_def)
  obtain tt where tt: "tool_table = VDict tt"
    using assms ks dyn by (cases tool_table) (simp_all add: dynamic_license_def)
  obtain dc where dc: "dict_get_default tt ''dynamic'' (VDict []) = VDict dc"
    using assms ks dyn tt
    by (cases "dict_get_default tt ''dynamic'' (VDict [])") (simp_all add: dynamic_license_def)
  let ?cfg = "dict_setdefault dc ''license_files'' DEFAULT_LICENSE_FILES"
  have tt': "tt' = (if dict_has tt ''dynamic'' then dict_set tt ''dynamic'' (VDict ?cfg) else tt)"
    using assms ks dyn tt dc by (simp add: dynamic_license_def Let_def)
  have cfg': "dict_setdefault
                (case dict_get_default tt' ''dynamic'' (VDict []) of VDict x \<Rightarrow> x | _ \<Rightarrow> [])
                ''license_files'' DEFAULT_LICENSE_FILES = ?cfg"
    and dc': "\<exists>x. dict_get_default tt' ''dynamic'' (VDict []) = VDict x
                \<and> dict_setdefault x ''license_files'' DEFAULT_LICENSE_FILES = ?cfg"
    and has': "dict_has tt' ''dynamic'' = dict_has tt ''dynamic''"
    and set': "(if dict_has tt' ''dynamic'' then dict_set tt' ''dynamic'' (VDict ?cfg) else tt') = tt'"
    using dc
    by (auto simp: tt' dict_get_default_def dict_get_set dict_setdefault_idem dict_has_set
          dict_set_twice dict_has_iff split: option.splits)
  from dc' obtain x where x: "dict_get_default tt' ''dynamic'' (VDict []) = VDict x"
    and xs: "dict_setdefault x ''license_files'' DEFAULT_LICENSE_FILES = ?cfg" by blast
  show ?thesis
    using assms ks dyn tt dc
    by (simp add: dynamic_license_def Let_def x xs set')
qed

lemma preprocess_idem:
  assumes "preprocess env config = (config', Inr (pt, tt))"
  shows "preprocess env config' = (config', Inr (pt, tt))"
proof -
  obtain tool where tool: "dict_get_default config ''tool'' (VDict []) = VDict tool"
    using assms by (cases "dict_get_default config ''tool'' (VDict [])") (simp_all add: preprocess_def)
  obtain project where project: "dict_get_default config ''project'' VNone = VDict project"
    using assms tool
    by (cases "dict_get_default config ''project'' VNone") (simp_all add: preprocess_def)
  obtain changed r where u: "unify_entry_points env project = (changed, r)"
    by (cases "unify_entry_points env project")
  obtain pt1 where r: "r = Inr pt1"
    using assms tool project u by (cases r) (simp_all add: preprocess_def Let_def)
  let ?project' = "(case changed of None \<Rightarrow> project | Some (k, ep) \<Rightarrow> dict_set project k ep)"
  let ?config1 = "(case changed of None \<Rightarrow> config
                   | Some (k, ep) \<Rightarrow> dict_set config ''project'' (VDict (dict_set project k ep)))"
  let ?tool_table = "dict_get_default tool ''setuptools'' VNone"
  have d: "dynamic_license env pt1 ?tool_table = Inr (pt, tt)"
    using assms tool project u r
    by (cases "dynamic_license env pt1 ?tool_table") (auto simp: preprocess_def Let_def)
  let ?tool' = "dict_set tool ''setuptools'' (VDict tt)"
  have config': "config' = dict_set ?config1 ''tool'' (VDict ?tool')"
    using assms tool project u r d by (simp add: preprocess_def Let_def)
  have pc: "dict_get config ''project'' = Some (VDict project)"
    using project by (auto simp: dict_get_default_def split: option.splits)
  have p1: "dict_get ?config1 ''project'' = Some (VDict ?project')"
    using pc by (auto simp: dict_get_set split: option.splits)
  have tool2: "dict_get_default config' ''tool'' (VDict []) = VDict ?tool'"
    by (simp add: config' dict_get_default_def dict_get_set)
  have tt2: "dict_get_default ?tool' ''setuptools'' VNone = VDict tt"
    by (simp add: dict_get_default_def dict_get_set)
  have project2: "dict_get_default config' ''project'' VNone = VDict ?project'"
    using p1 by (simp add: config' dict_get_default_def dict_get_set)
  have u2: "unify_entry_points env ?project' = (changed, Inr pt1)"
    using unify_entry_points_idem u r by simp
  have d2: "dynamic_license env pt1 (VDict tt) = Inr (pt, tt)"
    by (rule dynamic_license_idem [OF d])
  have same1: "(case changed of None \<Rightarrow> config'
                | Some (k, ep) \<Rightarrow> dict_set config' ''project'' (VDict (dict_set ?project' k ep)))
               = config'"
  proof (cases changed)
    case None
    then show ?thesis by simp
  next
    case (Some a)
    obtain k ep where a: "a = (k, ep)" by (cases a)
    have "dict_get config' ''project'' = Some (VDict (dict_set project k ep))"
      using p1 by (simp add: config' dict_get_set Some a)
    then show ?thesis
      by (simp add: Some a dict_set_twice dict_set_same)
  qed
  have same2: "dict_set config' ''tool'' (VDict (dict_set ?tool' ''setuptools'' (VDict tt))) = config'"
    by (simp add: config' dict_set_twice)
  show ?thesis
    by (simp add: preprocess_def tool2 tt2 project2 u2 d2 same1 same2 Let_def)
qed

lemma translate_idem:
  assumes "translate env dist config root_dir = (config', log, Inr dist')"
  shows "translate env dist config' root_dir = (config', log, Inr dist')"
proof -
  obtain c r where p: "preprocess env config = (c, r)"
    by (cases "preprocess env config")
  from assms p obtain pt tt where r: "r = Inr (pt, tt)"
    by (cases r) (auto simp: translate_def)
  from assms p r have c: "c = config'"
    by (auto simp: translate_def split: sum.splits prod.splits)
  from preprocess_idem [OF p [unfolded r c]] assms p r c show ?thesis
    by (simp add: translate_def)
qed

lemma finalize_Inr_cwd:
  "finalize env dist root_dir cwd = (cwd', Inr dist') \<Longrightarrow> cwd' = cwd"
  by (auto simp: finalize_def split: if_splits prod.splits)

text \<open>
  C9. When \<open>apply\<close> returns a distribution, applying it again to the same document,
  as the first call left it, with the same fresh distribution, in the working directory
  the first call left, gives the same outcome in every part: the same distribution,
  field for field, the same log, and the document and the working directory are left
  as they were found. The changes the first call makes to the document do not show in
  the second result, because the second call makes the same ones again.
\<close>

theorem C9_second_application_is_identical:
  assumes "out_result (apply_config env dist config root_dir cwd) = Inr model"
  shows "apply_config env dist (out_config (apply_config env dist config root_dir cwd)) root_dir
           (out_cwd (apply_config env dist config root_dir cwd))
         = apply_config env dist config root_dir cwd"
proof -
  obtain config' log r where t: "translate env dist config root_dir = (config', log, r)"
    by (cases "translate env dist config root_dir")
  from assms t obtain dist' where r: "r = Inr dist'"
    by (cases r) (simp_all add: apply_config_def)
  obtain cwd' r' where f: "finalize env dist' root_dir cwd = (cwd', r')"
    by (cases "finalize env dist' root_dir cwd")
  from assms t r f have r': "r' = Inr model"
    by (simp add: apply_config_def)
  from finalize_Inr_cwd [OF f [unfolded r']] have cwd': "cwd' = cwd" .
  have first: "apply_config env dist config root_dir cwd =
      \<lparr>out_config = config', out_cwd = cwd, out_log = log, out_result = Inr model\<rparr>"
    using t r f r' cwd' by (simp add: apply_config_def)
  have t2: "translate env dist config' root_dir = (config', log, Inr dist')"
    by (rule translate_idem [OF t [unfolded r]])
  show ?thesis
    unfolding first using t2 f r' cwd' by (simp add: apply_config_def)
qed

theorem C9_witness:
  "(\<exists>model. out_result
       (apply_config example_env fresh_dist dynamic_version_document ''.'' ''/home'') =
       Inr model)
   \<and> out_config (apply_config example_env fresh_dist dynamic_version_document ''.'' ''/home'')
       \<noteq> dynamic_version_document
   \<and> apply_config example_env fresh_dist
        (out_config (apply_config example_env fresh_dist dynamic_version_document ''.'' ''/home''))
        ''.''
        (out_cwd (apply_config example_env fresh_dist dynamic_version_document ''.'' ''/home''))
       = apply_config example_env fresh_dist dynamic_version_document ''.'' ''/home''"
proof -
  have h: "out_result
       (apply_config example_env fresh_dist dynamic_version_document ''.'' ''/home'') =
     Inr [(''metadata'', VObject (dict_set fresh_metadata ''name'' (VStr ''pkg''))),
          (''command_options'', VDict []),
          (''_finalize_requires'', VMethod ''_finalize_requires''),
          (''_finalize_license_files'', VMethod ''_finalize_license_files''),
          (''dynamic'', VDict [(''version'', VDict [(''attr'', VStr ''pkg.__version__'')]),
                               (''license_files'', DEFAULT_LICENSE_FILES)])]"
    by (simp add: run_defs dynamic_version_document_def)
  have c: "out_config (apply_config example_env fresh_dist dynamic_version_document ''.'' ''/home'')
       \<noteq> dynamic_version_document"
    by (simp add: run_defs dynamic_version_document_def)
  from C9_second_application_is_identical [OF h] h c show ?thesis by simp
qed

section \<open>Documents without the two tables\<close>

lemma unify_loop_error:
  "unify_loop env items st = Inl e \<Longrightarrow> \<not> is_configuration_error e"
proof (induction env items st rule: unify_loop.induct)
  case (1 env st)
  then show ?case by simp
next
  case (2 env key v rest project entry_points)
  then show ?case
    by (auto simp: is_configuration_error_def split: option.splits if_splits val.splits)
qed

lemma format_groups_error:
  "format_groups env groups = Inl e \<Longrightarrow> e = AttributeError ''items''"
proof (induction groups arbitrary: e)
  case Nil
  then show ?case by simp
next
  case (Cons g groups)
  obtain name grp where g: "g = (name, grp)" by (cases g)
  from Cons show ?case
    by (cases grp; cases "format_groups env groups") (simp_all add: g)
qed

lemma unify_entry_points_error:
  assumes "unify_entry_points env project = (c, Inl e)"
  shows "\<not> is_configuration_error e"
  using assms
  by (auto simp: unify_entry_points_def dict_pop_def Let_def is_configuration_error_def
        andthen_def
        split: sum.splits prod.splits if_splits val.splits
        dest: unify_loop_error format_groups_error)

lemma py_iter_error: "py_iter v = Inl e \<Longrightarrow> \<not> is_configuration_error e"
  by (cases v) (auto simp: is_configuration_error_def)

lemma norm_keys_error: "norm_keys env ks = Inl e \<Longrightarrow> \<not> is_configuration_error e"
proof (induction env ks rule: norm_keys.induct)
  case (1 env)
  then show ?case by simp
next
  case (2 env k ks)
  then show ?case by (cases "norm_keys env ks") simp_all
qed (auto simp: is_configuration_error_def)

lemma dynamic_license_error:
  "dynamic_license env pt tt = Inl e \<Longrightarrow> \<not> is_configuration_error e"
  by (auto simp: dynamic_license_def andthen_def Let_def is_configuration_error_def
        split: sum.splits val.splits dest: py_iter_error norm_keys_error)

lemma dynamic_license_None:
  "\<exists>e. dynamic_license env pt VNone = Inl e"
  by (auto simp: dynamic_license_def andthen_def split: sum.splits)

lemma preprocess_error:
  "snd (preprocess env config) = Inl e \<Longrightarrow> \<not> is_configuration_error e"
  by (auto simp: preprocess_def Let_def
        split: val.splits prod.splits sum.splits option.splits
        dest: unify_entry_points_error dynamic_license_error)
     (simp_all add: is_configuration_error_def)


lemma preprocess_missing:
  assumes "dict_get config ''project'' = None \<or> dict_get config ''tool'' = None
     \<or> (\<exists>tool. dict_get config ''tool'' = Some (VDict tool) \<and> dict_get tool ''setuptools'' = None)"
  shows "\<exists>e. snd (preprocess env config) = Inl e"
proof (cases "dict_get_default config ''tool'' (VDict [])")
  case (VDict tool)
  have none: "dict_get config ''project'' \<noteq> None \<Longrightarrow> dict_get_default tool ''setuptools'' VNone = VNone"
    using assms VDict
    by (auto simp: dict_get_default_def dict_get_def split: option.splits)
  show ?thesis
  proof (cases "dict_get_default config ''project'' VNone")
    case (VDict project)
    then have "dict_get config ''project'' \<noteq> None"
      by (auto simp: dict_get_default_def split: option.splits)
    with none have tt: "dict_get_default tool ''setuptools'' VNone = VNone" by simp
    obtain c r where u: "unify_entry_points env project = (c, r)"
      by (cases "unify_entry_points env project")
    show ?thesis
    proof (cases r)
      case (Inl e)
      with u VDict \<open>dict_get_default config ''tool'' (VDict []) = VDict tool\<close> show ?thesis
        by (simp add: preprocess_def Let_def)
    next
      case (Inr pt)
      obtain e where "dynamic_license env pt VNone = Inl e"
        using dynamic_license_None by blast
      with Inr u VDict tt \<open>dict_get_default config ''tool'' (VDict []) = VDict tool\<close>
      show ?thesis
        by (simp add: preprocess_def Let_def)
    qed
  qed (simp_all add: preprocess_def \<open>dict_get_default config ''tool'' (VDict []) = VDict tool\<close>)
qed (simp_all add: preprocess_def)

text \<open>
  C10. A document without a \<open>project\<close> table, without a \<open>tool\<close> table, or whose
  tool table has no \<open>setuptools\<close> sub-table makes \<open>apply\<close> fail: no distribution is
  returned, the error is not a configuration error, and it comes from the preprocessing,
  before any field is assigned, any warning logged or the directory changed. So a
  distribution is returned only for a document that has both tables.
\<close>

theorem C10_fails_without_tables:
  assumes "dict_get config ''project'' = None \<or> dict_get config ''tool'' = None
     \<or> (\<exists>tool. dict_get config ''tool'' = Some (VDict tool) \<and> dict_get tool ''setuptools'' = None)"
  shows "\<exists>e. out_result (apply_config env dist config root_dir cwd) = Inl e
           \<and> \<not> is_configuration_error e
           \<and> out_log (apply_config env dist config root_dir cwd) = []
           \<and> out_cwd (apply_config env dist config root_dir cwd) = cwd"
proof -
  obtain e where e: "snd (preprocess env config) = Inl e"
    using preprocess_missing [OF assms] by blast
  then obtain c where "preprocess env config = (c, Inl e)"
    by (cases "preprocess env config") simp
  then have "apply_config env dist config root_dir cwd =
      \<lparr>out_config = c, out_cwd = cwd, out_log = [], out_result = Inl e\<rparr>"
    by (simp add: apply_config_def translate_def)
  with preprocess_error [OF e] show ?thesis by simp
qed

theorem C10_witness:
  "out_result (apply_config example_env fresh_dist
       [(''project'', VDict [(''name'', VStr ''pkg'')])] ''.'' ''/home'') =
     Inl (AttributeError ''get'')
   \<and> out_result (apply_config example_env fresh_dist
       [(''tool'', VDict [(''setuptools'', VDict [])])] ''.'' ''/home'') =
     Inl (AttributeError ''copy'')
   \<and> \<not> is_configuration_error (AttributeError ''get'')"
proof -
  have h: "dict_get [(''project'', VDict [(''name'', VStr ''pkg'')])] ''project'' = None
     \<or> dict_get [(''project'', VDict [(''name'', VStr ''pkg'')])] ''tool'' = None
     \<or> (\<exists>tool. dict_get [(''project'', VDict [(''name'', VStr ''pkg'')])] ''tool'' =
            Some (VDict tool) \<and> dict_get tool ''setuptools'' = None)"
    by (simp add: dict_get_def)
  have 1: "out_result (apply_config example_env fresh_dist
       [(''project'', VDict [(''name'', VStr ''pkg'')])] ''.'' ''/home'') =
     Inl (AttributeError ''get'')"
    by (simp add: run_defs)
  have 2: "out_result (apply_config example_env fresh_dist
       [(''tool'', VDict [(''setuptools'', VDict [])])] ''.'' ''/home'') =
     Inl (AttributeError ''copy'')"
    by (simp add: run_defs)
  from C10_fails_without_tables [OF h, of example_env fresh_dist "''.''" "''/home''"]
  obtain e where "out_result (apply_config example_env fresh_dist
       [(''project'', VDict [(''name'', VStr ''pkg'')])] ''.'' ''/home'') = Inl e"
    and "\<not> is_configuration_error e"
    by blast
  with 1 2 show ?thesis by simp
qed


end
